theory Spec2Isabelle
  imports Complex_Main "HOL-Library.AList"
begin

section \<open>Configuration constants (src/config.js)\<close>

text \<open>
  JavaScript numbers are modelled as real numbers: the development reasons about the
  arithmetic the server writes down, not about the rounding of IEEE doubles.
\<close>

definition TICK_RATE :: real where "TICK_RATE = 60"
definition ACCELERATION :: real where "ACCELERATION = 5 / 100"
definition MAX_SPEED :: real where "MAX_SPEED = 15 / 10"
definition TURN_ACCELERATION :: real where "TURN_ACCELERATION = 15 / 1000"
definition ANGULAR_FRICTION :: real where "ANGULAR_FRICTION = 75 / 100"
definition FRICTION :: real where "FRICTION = 95 / 100"
definition SIDEWAYS_FRICTION_MULTIPLIER :: real where "SIDEWAYS_FRICTION_MULTIPLIER = 3"
definition TILT_RECOVERY_DAMPING :: real where "TILT_RECOVERY_DAMPING = 95 / 100"
definition TILT_RECOVERY_FORCE :: real where "TILT_RECOVERY_FORCE = 1 / 100"
definition GRAVITY :: real where "GRAVITY = 1"
definition FENCE_RADIUS :: real where "FENCE_RADIUS = 100"
definition TILT_DEATH_DEGREES :: real where "TILT_DEATH_DEGREES = 60"
definition RESPAWN_AT_SPAWN :: bool where "RESPAWN_AT_SPAWN = True"
definition SPAWN_RADIUS :: real where "SPAWN_RADIUS = 50"
definition AI_SHEEP_COUNT :: nat where "AI_SHEEP_COUNT = 50"

section \<open>Server constants (server.js)\<close>

definition toRadians :: "real \<Rightarrow> real" where
  "toRadians deg = deg * pi / 180"

definition TILT_DEATH_RAD :: real where
  "TILT_DEATH_RAD = toRadians TILT_DEATH_DEGREES"

definition GROUND_Y :: real where "GROUND_Y = 6 / 10"
definition RESPAWN_TIME :: real where "RESPAWN_TIME = 3"

text \<open>
  \<open>Math.atan2\<close> of ECMAScript on finite numbers (there is no negative zero among the
  reals, so \<open>atan2 0 0 = 0\<close>).
\<close>

definition atan2 :: "real \<Rightarrow> real \<Rightarrow> real" where
  "atan2 b a =
     (if a > 0 then arctan (b / a)
      else if a < 0 then (if b \<ge> 0 then arctan (b / a) + pi else arctan (b / a) - pi)
      else if b > 0 then pi / 2
      else if b < 0 then - (pi / 2)
      else 0)"

section \<open>Data model\<close>

record vec3 =
  xc :: real
  yc :: real
  zc :: real

datatype personality = Timid | Brave | Curious | Hyper | Aggressive

text \<open>
  One entry of the \<open>players\<close> object. The objects built by the connection handler have
  no \<open>personality\<close> (here \<open>None\<close>) and none of the fields \<open>isAI\<close>, \<open>aiTimer\<close>,
  \<open>aiTargetAngle\<close>, \<open>aiAvoidTimer\<close>, \<open>scaredTimer\<close>; the record holds \<open>False\<close> and \<open>0\<close>
  for them. The server reads these fields of such an object only behind a test of the
  personality, through \<open>|| 0\<close>, or after having assigned them, so the value \<open>0\<close> is
  never observed where JavaScript would see \<open>undefined\<close>.
\<close>

record player =
  position :: vec3
  spawn :: "vec3 option"
  rotation :: real
  angularVelocity :: real
  velocityX :: real
  velocityY :: real
  velocityZ :: real
  isDead :: bool
  respawnTimer :: real
  rotationX :: real
  rotationZ :: real
  angularVelocityX :: real
  angularVelocityZ :: real
  isAI :: bool
  aiTimer :: real
  aiTargetAngle :: real
  aiAvoidTimer :: real
  personality :: "personality option"
  scaredTimer :: real

record input =
  key_w :: bool
  key_a :: bool
  key_s :: bool
  key_d :: bool

definition noInput :: input where
  "noInput = \<lparr>key_w = False, key_a = False, key_s = False, key_d = False\<rparr>"

text \<open>
  The messages the server sends. A state snapshot of one entity is
  \<open>(id, position, rotation {x, y, z}, isDead, personality)\<close>.
\<close>

type_synonym snapshot = "string \<times> vec3 \<times> vec3 \<times> bool \<times> personality option"

datatype event =
    Death string vec3
  | State "snapshot list"
  | Init string player
  | Connect snapshot
  | Disconnect string

text \<open>
  \<open>players\<close> is a JavaScript object whose keys are enumerated in insertion order: an
  association list. \<open>inputStates\<close> is only ever looked up by key: a map.
\<close>

record world =
  players :: "(string \<times> player) list"
  inputStates :: "string \<rightharpoonup> input"

text \<open>
  \<open>Math.random()\<close> is a tape of numbers read from left to right; every function that
  draws takes the tape and the index of the next number and returns the new index.
\<close>

type_synonym rng = "nat \<Rightarrow> real"

section \<open>The physics pass of the game loop\<close>

definition getRandomSpawn :: "rng \<Rightarrow> nat \<Rightarrow> vec3 \<times> nat" where
  "getRandomSpawn rnd n =
     (let angle = rnd n * pi * 2;
          radius = rnd (n + 1) * SPAWN_RADIUS
      in (\<lparr>xc = cos angle * radius, yc = GROUND_Y, zc = sin angle * radius\<rparr>, n + 2))"

definition respawn :: "rng \<Rightarrow> nat \<Rightarrow> player \<Rightarrow> player \<times> nat" where
  "respawn rnd n p =
     (let (pos, n1) =
            (case (if RESPAWN_AT_SPAWN then spawn p else None) of
               Some sp \<Rightarrow> (sp\<lparr>yc := GROUND_Y\<rparr>, n)
             | None \<Rightarrow> getRandomSpawn rnd n)
      in (p\<lparr>position := pos,
            rotation := rnd n1 * pi * 2,
            angularVelocity := 0,
            velocityX := 0,
            velocityY := 0,
            velocityZ := 0,
            rotationX := 0,
            rotationZ := 0,
            angularVelocityX := 0,
            angularVelocityZ := 0,
            isDead := False\<rparr>, n1 + 1))"

definition applyTurn :: "input \<Rightarrow> player \<Rightarrow> player" where
  "applyTurn inp p =
     (let turnDir = (if key_s inp \<and> \<not> key_w inp then - 1 else 1);
          av1 = (if key_a inp then angularVelocity p + TURN_ACCELERATION * turnDir
                 else angularVelocity p);
          av2 = (if key_d inp then av1 - TURN_ACCELERATION * turnDir else av1);
          av3 = av2 * ANGULAR_FRICTION
      in p\<lparr>angularVelocity := av3, rotation := rotation p + av3\<rparr>)"

definition applyThrust :: "input \<Rightarrow> player \<Rightarrow> player" where
  "applyThrust inp p =
     (let accX0 = (if key_w inp then sin (rotation p) * ACCELERATION else 0);
          accZ0 = (if key_w inp then cos (rotation p) * ACCELERATION else 0);
          accX = (if key_s inp then accX0 - sin (rotation p) * ACCELERATION * (1 / 2) else accX0);
          accZ = (if key_s inp then accZ0 - cos (rotation p) * ACCELERATION * (1 / 2) else accZ0)
      in p\<lparr>velocityX := velocityX p + accX, velocityZ := velocityZ p + accZ\<rparr>)"

definition applyFriction :: "player \<Rightarrow> player" where
  "applyFriction p =
     (let forwardX = sin (rotation p);
          forwardZ = cos (rotation p);
          rightX = cos (rotation p);
          rightZ = - sin (rotation p);
          forwardSpeed = velocityX p * forwardX + velocityZ p * forwardZ;
          sidewaysSpeed = velocityX p * rightX + velocityZ p * rightZ;
          newForwardSpeed = forwardSpeed * FRICTION;
          newSidewaysSpeed = sidewaysSpeed * (1 - (1 - FRICTION) * SIDEWAYS_FRICTION_MULTIPLIER)
      in p\<lparr>velocityX := forwardX * newForwardSpeed + rightX * newSidewaysSpeed,
            velocityZ := forwardZ * newForwardSpeed + rightZ * newSidewaysSpeed\<rparr>)"

definition planarSpeed :: "player \<Rightarrow> real" where
  "planarSpeed p = sqrt ((velocityX p)^2 + (velocityZ p)^2)"

definition clampSpeed :: "player \<Rightarrow> player" where
  "clampSpeed p =
     (let speed = planarSpeed p;
          p1 = (if speed > MAX_SPEED
                then p\<lparr>velocityX := velocityX p * (MAX_SPEED / speed),
                       velocityZ := velocityZ p * (MAX_SPEED / speed)\<rparr>
                else p)
      in if speed < 1 / 100 then p1\<lparr>velocityX := 0, velocityZ := 0\<rparr> else p1)"

definition applyGravity :: "player \<Rightarrow> player" where
  "applyGravity p = p\<lparr>velocityY := velocityY p - GRAVITY / TICK_RATE\<rparr>"

definition updatePosition :: "player \<Rightarrow> player" where
  "updatePosition p =
     p\<lparr>position := \<lparr>xc = xc (position p) + velocityX p,
                      yc = yc (position p) + velocityY p,
                      zc = zc (position p) + velocityZ p\<rparr>\<rparr>"

text \<open>The test of the branch that stops a scared, jumping timid sheep.\<close>

definition scaredAirborne :: "player \<Rightarrow> bool" where
  "scaredAirborne p \<longleftrightarrow>
     personality p = Some Timid \<and> scaredTimer p > 0 \<and> yc (position p) > GROUND_Y"

definition scareOverride :: "player \<Rightarrow> player" where
  "scareOverride p =
     (if scaredAirborne p
      then p\<lparr>velocityX := 0, velocityZ := 0, angularVelocityX := - (7 / 10)\<rparr>
      else p)"

definition groundConstraint :: "player \<Rightarrow> player" where
  "groundConstraint p =
     (if yc (position p) < GROUND_Y
      then p\<lparr>position := (position p)\<lparr>yc := GROUND_Y\<rparr>,
             velocityY := 0,
             angularVelocityX := angularVelocityX p * (9 / 10),
             angularVelocityZ := angularVelocityZ p * (9 / 10)\<rparr>
      else p)"

definition updateTilt :: "player \<Rightarrow> player" where
  "updateTilt p =
     (let rx = rotationX p + angularVelocityX p;
          rz = rotationZ p + angularVelocityZ p;
          avx1 = (angularVelocityX p - rx * TILT_RECOVERY_FORCE) * TILT_RECOVERY_DAMPING;
          avz1 = (angularVelocityZ p - rz * TILT_RECOVERY_FORCE) * TILT_RECOVERY_DAMPING;
          avx = (if \<bar>avx1\<bar> < 1 / 1000 then 0 else avx1);
          avz = (if \<bar>avz1\<bar> < 1 / 1000 then 0 else avz1);
          targetTurningTiltZ = - angularVelocity p * 5;
          rz1 = rz * (95 / 100) + targetTurningTiltZ * (5 / 100);
          rz2 = (if \<bar>rz1\<bar> < 1 / 100 \<and> \<bar>angularVelocity p\<bar> < 1 / 100 \<and> \<bar>avz\<bar> < 1 / 100
                 then 0 else rz1);
          rx2 = (if \<bar>rx\<bar> < 1 / 100 \<and> \<bar>avx\<bar> < 1 / 100 then 0 else rx)
      in p\<lparr>rotationX := rx2, rotationZ := rz2,
            angularVelocityX := avx, angularVelocityZ := avz\<rparr>)"

definition distanceFromCenter :: "player \<Rightarrow> real" where
  "distanceFromCenter p = sqrt ((xc (position p))^2 + (zc (position p))^2)"

definition die :: "string \<Rightarrow> player \<Rightarrow> player \<times> event list" where
  "die ident p =
     (p\<lparr>isDead := True, respawnTimer := RESPAWN_TIME\<rparr>, [Death ident (position p)])"

definition fenceCheck :: "string \<Rightarrow> player \<Rightarrow> player \<times> event list" where
  "fenceCheck ident p =
     (if distanceFromCenter p \<ge> FENCE_RADIUS
      then (if \<not> isDead p then die ident p else (p, []))
      else (p, []))"

definition isRecentlyScaredTimid :: "player \<Rightarrow> bool" where
  "isRecentlyScaredTimid p \<longleftrightarrow> personality p = Some Timid \<and> scaredTimer p > 0"

definition tiltCheck :: "string \<Rightarrow> player \<Rightarrow> player \<times> event list" where
  "tiltCheck ident p =
     (if yc (position p) \<le> GROUND_Y + 1 / 1000
      then (if \<not> isRecentlyScaredTimid p
               \<and> (\<bar>rotationZ p\<bar> > TILT_DEATH_RAD \<or> \<bar>rotationX p\<bar> > TILT_DEATH_RAD)
               \<and> \<not> isDead p
            then die ident p else (p, []))
      else (p, []))"

text \<open>
  Lines 136 to 196 of the loop body: turning, thrust, friction, clamp, gravity and the
  update of the position.
\<close>

definition moveEntity :: "input \<Rightarrow> player \<Rightarrow> player" where
  "moveEntity inp p =
     updatePosition (applyGravity (clampSpeed (applyFriction (applyThrust inp (applyTurn inp p)))))"

text \<open>Lines 136 to 243 of the loop body: everything before the two death checks.\<close>

definition integrate :: "input \<Rightarrow> player \<Rightarrow> player" where
  "integrate inp p = updateTilt (groundConstraint (scareOverride (moveEntity inp p)))"

definition deathChecks :: "string \<Rightarrow> player \<Rightarrow> player \<times> event list" where
  "deathChecks ident p =
     (let (p1, evs1) = fenceCheck ident p;
          (p2, evs2) = tiltCheck ident p1
      in (p2, evs1 @ evs2))"

text \<open>\<open>inputStates[id] || { w: false, a: false, s: false, d: false }\<close>\<close>

definition inputOf :: "(string \<rightharpoonup> input) \<Rightarrow> string \<Rightarrow> input" where
  "inputOf inputs ident = (case inputs ident of Some i \<Rightarrow> i | None \<Rightarrow> noInput)"

text \<open>The body of the first loop of the game loop, for the entry \<open>ident\<close> of \<open>players\<close>.\<close>

definition playerUpdate ::
  "rng \<Rightarrow> (string \<rightharpoonup> input) \<Rightarrow> string \<Rightarrow> player \<Rightarrow> nat \<Rightarrow> player \<times> event list \<times> nat" where
  "playerUpdate rnd inputs ident p n =
     (if isDead p
      then (let p1 = p\<lparr>respawnTimer := respawnTimer p - 1 / TICK_RATE\<rparr>
            in if respawnTimer p1 \<le> 0
               then (let (p2, n1) = respawn rnd n p1 in (p2, [], n1))
               else (p1, [], n))
      else (let (p1, evs) = deathChecks ident (integrate (inputOf inputs ident) p)
            in (p1, evs, n)))"

fun physicsLoop ::
  "rng \<Rightarrow> (string \<rightharpoonup> input) \<Rightarrow> (string \<times> player) list \<Rightarrow> nat
     \<Rightarrow> (string \<times> player) list \<times> event list \<times> nat" where
  "physicsLoop rnd inputs [] n = ([], [], n)"
| "physicsLoop rnd inputs ((ident, p) # rest) n =
     (let (p1, evs, n1) = playerUpdate rnd inputs ident p n;
          (rest1, evs1, n2) = physicsLoop rnd inputs rest n1
      in ((ident, p1) # rest1, evs @ evs1, n2))"

section \<open>The AI pass of the game loop\<close>

text \<open>The digits of \<open>i\<close> as the template literal \<open>`ai-sheep-${i}`\<close> prints them.\<close>

definition digitChar :: "nat \<Rightarrow> char" where
  "digitChar k = char_of (48 + k)"

fun decimal :: "nat \<Rightarrow> string" where
  "decimal k = (if k < 10 then [digitChar k] else decimal (k div 10) @ [digitChar (k mod 10)])"

definition aiSheepId :: "nat \<Rightarrow> string" where
  "aiSheepId i = ''ai-sheep-'' @ decimal i"

definition aiSheepIds :: "string list" where
  "aiSheepIds = map aiSheepId [0..<AI_SHEEP_COUNT]"

definition AI_PERSONALITIES :: "personality list" where
  "AI_PERSONALITIES = [Timid, Brave, Curious, Hyper, Aggressive]"

definition createAISheep :: "rng \<Rightarrow> nat \<Rightarrow> personality \<Rightarrow> player \<times> nat" where
  "createAISheep rnd n pers =
     (let angle = rnd n * pi * 2;
          radius = rnd (n + 1) * (SPAWN_RADIUS * (7 / 10))
      in (\<lparr>position = \<lparr>xc = cos angle * radius, yc = GROUND_Y, zc = sin angle * radius\<rparr>,
           spawn = None,
           rotation = rnd (n + 2) * pi * 2,
           angularVelocity = 0,
           velocityX = 0,
           velocityY = 0,
           velocityZ = 0,
           isDead = False,
           respawnTimer = 0,
           rotationX = 0,
           rotationZ = 0,
           angularVelocityX = 0,
           angularVelocityZ = 0,
           isAI = True,
           aiTimer = 0,
           aiTargetAngle = rnd (n + 3) * pi * 2,
           aiAvoidTimer = 0,
           personality = Some pers,
           scaredTimer = 0\<rparr>, n + 4))"

text \<open>
  The scan \<open>for (const otherId in players)\<close> of the curious and the aggressive sheep.
  The accumulator is \<open>(closestDist, targetAngle)\<close>; \<open>None\<close> stands for the initial
  \<open>(Infinity, null)\<close>, below which every distance lies.
\<close>

fun nearestScan ::
  "string \<Rightarrow> player \<Rightarrow> (string \<times> player) list \<Rightarrow> (real \<times> real) option
     \<Rightarrow> (real \<times> real) option" where
  "nearestScan ident sheep [] acc = acc"
| "nearestScan ident sheep ((otherId, other) # rest) acc =
     (if otherId = ident \<or> isDead other then nearestScan ident sheep rest acc
      else (let dx = xc (position other) - xc (position sheep);
                dz = zc (position other) - zc (position sheep);
                dist = sqrt (dx * dx + dz * dz)
            in if (case acc of None \<Rightarrow> True | Some (closestDist, _) \<Rightarrow> dist < closestDist)
               then nearestScan ident sheep rest (Some (dist, atan2 dx dz))
               else nearestScan ident sheep rest acc))"

definition angleToCenter :: "player \<Rightarrow> real" where
  "angleToCenter sheep = atan2 (- xc (position sheep)) (- zc (position sheep))"

text \<open>The personality branches (lines 272 to 340).\<close>

definition aiPersonality ::
  "rng \<Rightarrow> string \<Rightarrow> (string \<times> player) list \<Rightarrow> player \<Rightarrow> nat \<Rightarrow> player \<times> nat" where
  "aiPersonality rnd ident ps sheep n =
     (if personality sheep = Some Timid \<and> scaredTimer sheep > 0 then
        (let sheep1 = sheep\<lparr>scaredTimer := scaredTimer sheep - 1 / TICK_RATE\<rparr>
         in if distanceFromCenter sheep1 > FENCE_RADIUS * (9 / 10)
            then (sheep1\<lparr>aiTargetAngle := angleToCenter sheep1 + (rnd n - 1 / 2) * (4 / 10),
                         aiTimer := 1 / 10\<rparr>, n + 1)
            else (sheep1, n))
      else if personality sheep = Some Brave then
        (if rnd n < 8 / 10
         then (if distanceFromCenter sheep > FENCE_RADIUS * (9 / 10)
               then (sheep\<lparr>aiTargetAngle :=
                             angleToCenter sheep + (rnd (n + 1) - 1 / 2) * (4 / 10)\<rparr>, n + 2)
               else (sheep, n + 1))
         else (sheep, n + 1))
      else if personality sheep = Some Curious then
        (if rnd n < 1 / 100
         then (case nearestScan ident sheep ps None of
                 Some (_, targetAngle) \<Rightarrow>
                   (sheep\<lparr>aiTargetAngle := targetAngle + (rnd (n + 1) - 1 / 2) * (3 / 10)\<rparr>,
                    n + 2)
               | None \<Rightarrow> (sheep, n + 1))
         else (sheep, n + 1))
      else if personality sheep = Some Hyper then
        (if aiTimer sheep \<le> 0
         then (sheep\<lparr>aiTimer := 1 / 2 + rnd n * (1 / 2)\<rparr>, n + 1)
         else (sheep, n))
      else if personality sheep = Some Aggressive then
        (case nearestScan ident sheep ps None of
           Some (_, targetAngle) \<Rightarrow>
             (sheep\<lparr>aiTargetAngle := targetAngle + (rnd n - 1 / 2) * (2 / 10)\<rparr>, n + 1)
         | None \<Rightarrow> (sheep, n))
      else (sheep, n))"

text \<open>
  The guard of the re-roll:
  \<open>sheep.aiTimer <= 0 && (!['timid'].includes(p) || sheep.aiAvoidTimer <= 0)\<close>.
\<close>

definition rerollDue :: "player \<Rightarrow> bool" where
  "rerollDue sheep \<longleftrightarrow>
     aiTimer sheep \<le> 0 \<and> (personality sheep \<noteq> Some Timid \<or> aiAvoidTimer sheep \<le> 0)"

text \<open>The random-walk timer (lines 342 to 349).\<close>

definition aiRandomWalk :: "rng \<Rightarrow> player \<Rightarrow> nat \<Rightarrow> player \<times> nat" where
  "aiRandomWalk rnd sheep n =
     (let sheep1 = sheep\<lparr>aiTimer := aiTimer sheep - 1 / TICK_RATE\<rparr>
      in if rerollDue sheep1
         then (sheep1\<lparr>aiTargetAngle := rnd n * pi * 2,
                      aiTimer := (if personality sheep1 = Some Hyper
                                  then 1 / 2 + rnd (n + 1) * (1 / 2)
                                  else 2 + rnd (n + 1) * 3)\<rparr>, n + 2)
         else (sheep1, n))"

text \<open>
  The personality-based speeds: the defaults \<open>0.07\<close> and \<open>0.7\<close>, overwritten by the one
  test among the four that matches.
\<close>

definition turnSpeed :: "personality option \<Rightarrow> real" where
  "turnSpeed p =
     (if p = Some Timid then 9 / 100
      else if p = Some Brave then 5 / 100
      else if p = Some Curious then 7 / 100
      else if p = Some Hyper then 13 / 100
      else 7 / 100)"

definition moveSpeed :: "personality option \<Rightarrow> real" where
  "moveSpeed p =
     (if p = Some Timid then 6 / 10
      else if p = Some Brave then 8 / 10
      else if p = Some Curious then 7 / 10
      else if p = Some Hyper then 11 / 10
      else 7 / 10)"

text \<open>Turning toward the target angle and moving forward (lines 351 to 368).\<close>

definition aiMovement :: "player \<Rightarrow> player" where
  "aiMovement sheep =
     (let angleDiff0 = aiTargetAngle sheep - rotation sheep;
          angleDiff = atan2 (sin angleDiff0) (cos angleDiff0);
          av = angleDiff * turnSpeed (personality sheep);
          rot = rotation sheep + av
      in sheep\<lparr>angularVelocity := av,
                rotation := rot,
                velocityX := velocityX sheep + sin rot * ACCELERATION * moveSpeed (personality sheep),
                velocityZ := velocityZ sheep + cos rot * ACCELERATION * moveSpeed (personality sheep)\<rparr>)"

definition aiUpdate ::
  "rng \<Rightarrow> string \<Rightarrow> (string \<times> player) list \<Rightarrow> player \<Rightarrow> nat \<Rightarrow> player \<times> nat" where
  "aiUpdate rnd ident ps sheep n =
     (let (sheep1, n1) = aiPersonality rnd ident ps sheep n;
          (sheep2, n2) = aiRandomWalk rnd sheep1 n1
      in (aiMovement sheep2, n2))"

text \<open>
  The second loop, over \<open>aiSheepIds\<close>. The sheep is mutated in place, which is an
  update of its entry in \<open>players\<close>.
\<close>

fun aiLoop ::
  "rng \<Rightarrow> string list \<Rightarrow> (string \<times> player) list \<Rightarrow> nat \<Rightarrow> (string \<times> player) list \<times> nat" where
  "aiLoop rnd [] ps n = (ps, n)"
| "aiLoop rnd (ident # ids) ps n =
     (case map_of ps ident of
        None \<Rightarrow> aiLoop rnd ids ps n
      | Some sheep \<Rightarrow>
          if isDead sheep then aiLoop rnd ids ps n
          else (let (sheep1, n1) = aiUpdate rnd ident ps sheep n
                in aiLoop rnd ids (AList.update ident sheep1 ps) n1))"

section \<open>One tick of the game loop\<close>

definition playerState :: "string \<times> player \<Rightarrow> snapshot" where
  "playerState e =
     (fst e, position (snd e),
      \<lparr>xc = rotationX (snd e), yc = rotation (snd e), zc = rotationZ (snd e)\<rparr>,
      isDead (snd e), personality (snd e))"

definition tick :: "rng \<Rightarrow> world \<Rightarrow> world \<times> event list" where
  "tick rnd w =
     (let (ps1, evs, n1) = physicsLoop rnd (inputStates w) (players w) 0;
          (ps2, n2) = aiLoop rnd aiSheepIds ps1 n1
      in (w\<lparr>players := ps2\<rparr>, evs @ [State (map playerState ps2)]))"

text \<open>The \<open>death\<close> messages among the messages of a tick that name a given entity.\<close>

fun isDeathOf :: "string \<Rightarrow> event \<Rightarrow> bool" where
  "isDeathOf ident (Death i pos) = (i = ident)"
| "isDeathOf ident _ = False"

definition deathsOf :: "string \<Rightarrow> event list \<Rightarrow> event list" where
  "deathsOf ident evs = filter (isDeathOf ident) evs"

section \<open>Start-up and connection handling\<close>

fun createAll :: "rng \<Rightarrow> nat list \<Rightarrow> nat \<Rightarrow> (string \<times> player) list" where
  "createAll rnd [] n = []"
| "createAll rnd (i # is) n =
     (let (sheep, n1) =
            createAISheep rnd n (AI_PERSONALITIES ! (i mod length AI_PERSONALITIES))
      in (aiSheepId i, sheep) # createAll rnd is n1)"

definition initialWorld :: "rng \<Rightarrow> world" where
  "initialWorld rnd =
     \<lparr>players = createAll rnd [0..<AI_SHEEP_COUNT] 0, inputStates = Map.empty\<rparr>"

definition newPlayer :: "rng \<Rightarrow> player" where
  "newPlayer rnd =
     (let (spawnPos, n) = getRandomSpawn rnd 0
      in \<lparr>position = spawnPos,
          spawn = Some spawnPos,
          rotation = rnd n * pi * 2,
          angularVelocity = 0,
          velocityX = 0,
          velocityY = 0,
          velocityZ = 0,
          isDead = False,
          respawnTimer = 0,
          rotationX = 0,
          rotationZ = 0,
          angularVelocityX = 0,
          angularVelocityZ = 0,
          isAI = False,
          aiTimer = 0,
          aiTargetAngle = 0,
          aiAvoidTimer = 0,
          personality = None,
          scaredTimer = 0\<rparr>)"

text \<open>The connection handler, for the identifier \<open>uuidv4()\<close> returned.\<close>

definition onConnection :: "rng \<Rightarrow> string \<Rightarrow> world \<Rightarrow> world \<times> event list" where
  "onConnection rnd ident w =
     (let p = newPlayer rnd
      in (w\<lparr>players := AList.update ident p (players w),
            inputStates := (inputStates w)(ident \<mapsto> noInput)\<rparr>,
          [Init ident p,
           Connect (ident, position p, \<lparr>xc = 0, yc = rotation p, zc = 0\<rparr>, False,
                    personality p)]))"

text \<open>The handlers of \<open>close\<close> and \<open>error\<close> have the same body.\<close>

definition onClose :: "string \<Rightarrow> world \<Rightarrow> world \<times> event list" where
  "onClose ident w =
     (w\<lparr>players := AList.delete ident (players w),
        inputStates := (inputStates w)(ident := None)\<rparr>,
      [Disconnect ident])"

subsection \<open>Client messages\<close>

datatype json =
    JNull
  | JBool bool
  | JNum real
  | JStr string
  | JArr "json list"
  | JObj "(string \<times> json) list"

text \<open>\<open>inputStates[id][key] = pressed\<close>, guarded by \<open>hasOwnProperty(key)\<close>.\<close>

definition setKey :: "string \<Rightarrow> bool \<Rightarrow> input \<Rightarrow> input option" where
  "setKey k v inp =
     (if k = ''w'' then Some (inp\<lparr>key_w := v\<rparr>)
      else if k = ''a'' then Some (inp\<lparr>key_a := v\<rparr>)
      else if k = ''s'' then Some (inp\<lparr>key_s := v\<rparr>)
      else if k = ''d'' then Some (inp\<lparr>key_d := v\<rparr>)
      else None)"

text \<open>
  The message handler of the connection \<open>ident\<close>. Its argument is the outcome of
  \<open>JSON.parse(message)\<close>: \<open>None\<close> when the parser throws. Reading a property of \<open>null\<close>
  throws as well, and the same \<open>catch\<close> takes it; a property of any other value that is
  not an object with that key is \<open>undefined\<close>.
\<close>

definition onMessage :: "string \<Rightarrow> json option \<Rightarrow> world \<Rightarrow> world" where
  "onMessage ident parsed w =
     (case parsed of
        None \<Rightarrow> w
      | Some JNull \<Rightarrow> w
      | Some (JObj kvs) \<Rightarrow>
          (if map_of kvs ''type'' = Some (JStr ''input'') then
             (case inputStates w ident of
                None \<Rightarrow> w
              | Some inp \<Rightarrow>
                  (case (map_of kvs ''key'', map_of kvs ''pressed'') of
                     (Some (JStr k), Some (JBool v)) \<Rightarrow>
                       (case setKey k v inp of
                          Some inp1 \<Rightarrow> w\<lparr>inputStates := (inputStates w)(ident \<mapsto> inp1)\<rparr>
                        | None \<Rightarrow> w)
                   | _ \<Rightarrow> w))
           else w)
      | Some _ \<Rightarrow> w)"

section \<open>Reachable states\<close>

text \<open>
  The states of the server: the start-up state, and whatever a tick, a connection, a
  client message or a disconnection makes of a reachable state. The identifiers of
  connections are version-4 UUIDs, which are never of the form \<open>ai-sheep-N\<close>.
\<close>

inductive reachable :: "world \<Rightarrow> bool" where
  reach_init: "reachable (initialWorld rnd)"
| reach_tick: "reachable w \<Longrightarrow> reachable (fst (tick rnd w))"
| reach_connection:
    "reachable w \<Longrightarrow> ident \<notin> set aiSheepIds \<Longrightarrow> reachable (fst (onConnection rnd ident w))"
| reach_message: "reachable w \<Longrightarrow> reachable (onMessage ident parsed w)"
| reach_close:
    "reachable w \<Longrightarrow> ident \<notin> set aiSheepIds \<Longrightarrow> reachable (fst (onClose ident w))"

section \<open>Reference definitions and auxiliary notions\<close>

text \<open>
  The friction step as the specification words it: decompose the planar velocity on the
  forward and right directions of the heading, scale the forward component by \<open>0.95\<close>
  and the right component by \<open>1 - (1 - 0.95) * 3\<close>, recompose on the same basis.
\<close>

definition frictionReference :: "real \<times> real \<Rightarrow> real \<Rightarrow> real \<times> real" where
  "frictionReference v yaw =
     (let forward = (sin yaw, cos yaw);
          right = (cos yaw, - sin yaw);
          forwardComponent = fst v * fst forward + snd v * snd forward;
          rightComponent = fst v * fst right + snd v * snd right;
          scaledForward = forwardComponent * (95 / 100);
          scaledRight = rightComponent * (1 - (1 - 95 / 100) * 3)
      in (scaledForward * fst forward + scaledRight * fst right,
          scaledForward * snd forward + scaledRight * snd right))"

text \<open>
  The fields that neither turning, thrust, friction, gravity, the ground nor the tilt
  dynamics write: they belong to the lifecycle and to the AI controller.
\<close>

definition sameControl :: "player \<Rightarrow> player \<Rightarrow> bool" where
  "sameControl p q \<longleftrightarrow>
     personality q = personality p \<and> scaredTimer q = scaredTimer p \<and> isDead q = isDead p
     \<and> spawn q = spawn p \<and> aiAvoidTimer q = aiAvoidTimer p \<and> aiTimer q = aiTimer p
     \<and> aiTargetAngle q = aiTargetAngle p \<and> isAI q = isAI p \<and> respawnTimer q = respawnTimer p"

text \<open>
  The input protocol as the specification words it:
  \<open>{type: "input", key: "w"|"a"|"s"|"d", pressed: bool}\<close>. The result is the key and
  the value of a well-typed message, \<open>None\<close> for anything else.
\<close>

definition inputKeys :: "string list" where
  "inputKeys = [''w'', ''a'', ''s'', ''d'']"

definition flag :: "string \<Rightarrow> input \<Rightarrow> bool" where
  "flag k inp =
     (if k = ''w'' then key_w inp
      else if k = ''a'' then key_a inp
      else if k = ''s'' then key_s inp
      else if k = ''d'' then key_d inp
      else False)"

definition wellTypedInput :: "json option \<Rightarrow> (string \<times> bool) option" where
  "wellTypedInput parsed =
     (case parsed of
        Some (JObj kvs) \<Rightarrow>
          (case (map_of kvs ''type'', map_of kvs ''key'', map_of kvs ''pressed'') of
             (Some (JStr t), Some (JStr k), Some (JBool v)) \<Rightarrow>
               if t = ''input'' \<and> k \<in> set inputKeys then Some (k, v) else None
           | _ \<Rightarrow> None)
      | _ \<Rightarrow> None)"

text \<open>An entity that rests on the ground.\<close>

definition grounded :: "player \<Rightarrow> bool" where
  "grounded p \<longleftrightarrow> yc (position p) = GROUND_Y \<and> velocityY p = 0"

text \<open>
  The invariant behind the speed bound: no AI identifier has an input record, and no
  entity is faster than \<open>1.1\<close>.
\<close>

definition speedInvariant :: "world \<Rightarrow> bool" where
  "speedInvariant w \<longleftrightarrow>
     list_all (\<lambda>i. inputStates w i = None) aiSheepIds
     \<and> list_all (\<lambda>e. planarSpeed (snd e) \<le> 11 / 10) (players w)"

text \<open>
  The tick with its two loops in the order of the specification's sentence on the AI
  controller: the AI loop first, so that friction and the clamp of the same tick act on
  the thrust the AI controller has added.
\<close>

definition tickAIFirst :: "rng \<Rightarrow> world \<Rightarrow> world \<times> event list" where
  "tickAIFirst rnd w =
     (let (ps1, n1) = aiLoop rnd aiSheepIds (players w) 0;
          (ps2, evs, n2) = physicsLoop rnd (inputStates w) ps1 n1
      in (w\<lparr>players := ps2\<rparr>, evs @ [State (map playerState ps2)]))"

section \<open>Example states\<close>

text \<open>
  A resting aggressive sheep at the centre of the arena, the same sheep beyond the
  fence, the same sheep dead with three seconds to wait, two tapes of random numbers, a
  world that holds one sheep, and an input message for a key.
\<close>

definition exampleSheep :: player where
  "exampleSheep =
     \<lparr>position = \<lparr>xc = 0, yc = 6 / 10, zc = 0\<rparr>,
      spawn = None,
      rotation = 0,
      angularVelocity = 0,
      velocityX = 0,
      velocityY = 0,
      velocityZ = 0,
      isDead = False,
      respawnTimer = 0,
      rotationX = 0,
      rotationZ = 0,
      angularVelocityX = 0,
      angularVelocityZ = 0,
      isAI = True,
      aiTimer = 5,
      aiTargetAngle = 0,
      aiAvoidTimer = 0,
      personality = Some Aggressive,
      scaredTimer = 0\<rparr>"

definition strayedSheep :: player where
  "strayedSheep = exampleSheep\<lparr>position := \<lparr>xc = 201 / 2, yc = 6 / 10, zc = 0\<rparr>\<rparr>"

definition waitingSheep :: player where
  "waitingSheep = exampleSheep\<lparr>isDead := True, respawnTimer := 3\<rparr>"

definition zeroTape :: rng where
  "zeroTape n = 0"

definition halfTape :: rng where
  "halfTape n = 1 / 2"

definition exampleWorld :: "player \<Rightarrow> world" where
  "exampleWorld p = \<lparr>players = [(''ai-sheep-0'', p)], inputStates = Map.empty\<rparr>"

definition exampleMessage :: "string \<Rightarrow> json option" where
  "exampleMessage k =
     Some (JObj [(''type'', JStr ''input''), (''key'', JStr k), (''pressed'', JBool True)])"

text \<open>
  The resting sheep after the AI controller has pushed it once, and the pushed sheep
  after one pass of the integrator.
\<close>

definition pushedSheep :: player where
  "pushedSheep = exampleSheep\<lparr>aiTimer := 299 / 60, velocityZ := 7 / 200\<rparr>"

definition slowedSheep :: player where
  "slowedSheep = exampleSheep\<lparr>position := \<lparr>xc = 0, yc = 6 / 10, zc = 133 / 4000\<rparr>,
                              aiTimer := 299 / 60, velocityZ := 133 / 4000\<rparr>"

section \<open>Frame properties of the integrator\<close>

lemma sameControl_refl: "sameControl p p"
  by (simp add: sameControl_def)

lemma sameControl_trans: "sameControl p q \<Longrightarrow> sameControl q r \<Longrightarrow> sameControl p r"
  by (simp add: sameControl_def)

lemma sameControl_stages:
  "sameControl p (applyTurn inp p)"
  "sameControl p (applyThrust inp p)"
  "sameControl p (applyFriction p)"
  "sameControl p (clampSpeed p)"
  "sameControl p (applyGravity p)"
  "sameControl p (updatePosition p)"
  "sameControl p (scareOverride p)"
  "sameControl p (groundConstraint p)"
  "sameControl p (updateTilt p)"
  by (simp_all add: sameControl_def applyTurn_def applyThrust_def applyFriction_def
      clampSpeed_def applyGravity_def updatePosition_def scareOverride_def
      groundConstraint_def updateTilt_def Let_def)

lemma sameControl_step:
  "sameControl p q \<Longrightarrow> sameControl p (applyTurn inp q)"
  "sameControl p q \<Longrightarrow> sameControl p (applyThrust inp q)"
  "sameControl p q \<Longrightarrow> sameControl p (applyFriction q)"
  "sameControl p q \<Longrightarrow> sameControl p (clampSpeed q)"
  "sameControl p q \<Longrightarrow> sameControl p (applyGravity q)"
  "sameControl p q \<Longrightarrow> sameControl p (updatePosition q)"
  "sameControl p q \<Longrightarrow> sameControl p (scareOverride q)"
  "sameControl p q \<Longrightarrow> sameControl p (groundConstraint q)"
  "sameControl p q \<Longrightarrow> sameControl p (updateTilt q)"
  by (erule sameControl_trans, rule sameControl_stages)+

lemma sameControl_integrate: "sameControl p (integrate inp p)"
  unfolding integrate_def moveEntity_def
  by (intro sameControl_step sameControl_refl)

lemma integrate_frame [simp]:
  "personality (integrate inp p) = personality p"
  "scaredTimer (integrate inp p) = scaredTimer p"
  "isDead (integrate inp p) = isDead p"
  "spawn (integrate inp p) = spawn p"
  "aiAvoidTimer (integrate inp p) = aiAvoidTimer p"
  using sameControl_integrate [of p inp] by (simp_all add: sameControl_def)

lemma fenceCheck_frame [simp]:
  "personality (fst (fenceCheck ident p)) = personality p"
  "scaredTimer (fst (fenceCheck ident p)) = scaredTimer p"
  "position (fst (fenceCheck ident p)) = position p"
  "rotationX (fst (fenceCheck ident p)) = rotationX p"
  "rotationZ (fst (fenceCheck ident p)) = rotationZ p"
  by (simp_all add: fenceCheck_def die_def)

lemmas stage_defs = integrate_def moveEntity_def applyTurn_def applyThrust_def applyFriction_def
  clampSpeed_def planarSpeed_def applyGravity_def updatePosition_def scareOverride_def
  scaredAirborne_def groundConstraint_def updateTilt_def

lemma integrate_strayedSheep: "integrate noInput strayedSheep = strayedSheep"
  by (simp add: stage_defs strayedSheep_def exampleSheep_def noInput_def Let_def GROUND_Y_def
      GRAVITY_def TICK_RATE_def MAX_SPEED_def)

section \<open>The loop body and the two loops\<close>

lemma playerUpdate_alive:
  "\<not> isDead p \<Longrightarrow>
   playerUpdate rnd inputs ident p n =
     (fst (deathChecks ident (integrate (inputOf inputs ident) p)),
      snd (deathChecks ident (integrate (inputOf inputs ident) p)), n)"
  by (simp add: playerUpdate_def case_prod_beta)

lemma playerUpdate_waiting:
  "isDead p \<Longrightarrow> respawnTimer p - 1 / TICK_RATE > 0 \<Longrightarrow>
   playerUpdate rnd inputs ident p n = (p\<lparr>respawnTimer := respawnTimer p - 1 / TICK_RATE\<rparr>, [], n)"
  by (simp add: playerUpdate_def Let_def)

lemma playerUpdate_respawning:
  "isDead p \<Longrightarrow> respawnTimer p - 1 / TICK_RATE \<le> 0 \<Longrightarrow>
   playerUpdate rnd inputs ident p n =
     (fst (respawn rnd n (p\<lparr>respawnTimer := respawnTimer p - 1 / TICK_RATE\<rparr>)), [],
      snd (respawn rnd n (p\<lparr>respawnTimer := respawnTimer p - 1 / TICK_RATE\<rparr>)))"
  by (simp add: playerUpdate_def Let_def case_prod_beta)

lemma deathChecks_fence:
  "\<not> isDead q \<Longrightarrow> FENCE_RADIUS \<le> distanceFromCenter q \<Longrightarrow>
   deathChecks ident q = (q\<lparr>isDead := True, respawnTimer := RESPAWN_TIME\<rparr>, [Death ident (position q)])"
  by (simp add: deathChecks_def fenceCheck_def tiltCheck_def die_def)

lemma deathChecks_events_own:
  "e \<in> set (snd (deathChecks ident q)) \<Longrightarrow> \<exists>pos. e = Death ident pos"
  by (auto simp add: deathChecks_def fenceCheck_def tiltCheck_def die_def Let_def
      split: if_splits)

lemma playerUpdate_events_own:
  "e \<in> set (fst (snd (playerUpdate rnd inputs i p n))) \<Longrightarrow> \<exists>pos. e = Death i pos"
  by (cases "isDead p")
     (auto simp add: playerUpdate_alive dest: deathChecks_events_own,
      auto simp add: playerUpdate_def Let_def case_prod_beta split: if_splits)

lemma playerUpdate_deathsOf_other:
  "i \<noteq> ident \<Longrightarrow> deathsOf ident (fst (snd (playerUpdate rnd inputs i p n))) = []"
  by (auto simp add: deathsOf_def filter_empty_conv dest!: playerUpdate_events_own)

lemma physicsLoop_keys:
  "map fst (fst (physicsLoop rnd inputs ps n)) = map fst ps"
  by (induction ps arbitrary: n) (auto simp add: case_prod_beta Let_def)

lemma deathsOf_append: "deathsOf ident (xs @ ys) = deathsOf ident xs @ deathsOf ident ys"
  by (simp add: deathsOf_def)

lemma physicsLoop_deathsOf_absent:
  "ident \<notin> fst ` set ps \<Longrightarrow> deathsOf ident (fst (snd (physicsLoop rnd inputs ps n))) = []"
proof (induction ps arbitrary: n)
  case Nil
  then show ?case by (simp add: deathsOf_def)
next
  case (Cons e ps)
  obtain i p where e: "e = (i, p)" by (cases e)
  with Cons.prems have "i \<noteq> ident" and "ident \<notin> fst ` set ps" by auto
  then show ?case
    using Cons.IH [of "snd (snd (playerUpdate rnd inputs i p n))"]
    by (simp add: e case_prod_beta Let_def deathsOf_append playerUpdate_deathsOf_other)
qed

lemma physicsLoop_entry:
  "distinct (map fst ps) \<Longrightarrow> (ident, p) \<in> set ps \<Longrightarrow>
   \<exists>k. map_of (fst (physicsLoop rnd inputs ps n)) ident
          = Some (fst (playerUpdate rnd inputs ident p k))
     \<and> deathsOf ident (fst (snd (physicsLoop rnd inputs ps n)))
          = deathsOf ident (fst (snd (playerUpdate rnd inputs ident p k)))"
proof (induction ps arbitrary: n)
  case Nil
  then show ?case by simp
next
  case (Cons e ps)
  obtain i q where e: "e = (i, q)" by (cases e)
  show ?case
  proof (cases "i = ident")
    case True
    with Cons.prems e have pq: "q = p" and absent: "ident \<notin> fst ` set ps"
      by (auto simp add: rev_image_eqI)
    show ?thesis
      using physicsLoop_deathsOf_absent [OF absent]
      by (intro exI [of _ n]) (simp add: e True pq case_prod_beta Let_def deathsOf_append)
  next
    case False
    with Cons.prems e have "distinct (map fst ps)" and "(ident, p) \<in> set ps" by auto
    from Cons.IH [OF this, of "snd (snd (playerUpdate rnd inputs i q n))"]
    show ?thesis
      using False
      by (auto simp add: e case_prod_beta Let_def deathsOf_append playerUpdate_deathsOf_other)
  qed
qed

lemma aiLoop_dead_untouched:
  "map_of ps ident = Some q \<Longrightarrow> isDead q \<Longrightarrow> map_of (fst (aiLoop rnd ids ps n)) ident = Some q"
proof (induction ids arbitrary: ps n)
  case Nil
  then show ?case by simp
next
  case (Cons i ids)
  show ?case
  proof (cases "map_of ps i")
    case None
    with Cons show ?thesis by simp
  next
    case (Some sheep)
    show ?thesis
    proof (cases "isDead sheep")
      case True
      with Some Cons show ?thesis by simp
    next
      case False
      with Some Cons.prems have ne: "i \<noteq> ident" by auto
      have "map_of (AList.update i (fst (aiUpdate rnd i ps sheep n)) ps) ident = Some q"
        using ne Cons.prems by (simp add: update_conv')
      from Cons.IH [OF this Cons.prems(2)] show ?thesis
        using Some False by (simp add: case_prod_beta)
    qed
  qed
qed


lemma playerUpdate_dead_events:
  "isDead p \<Longrightarrow> fst (snd (playerUpdate rnd inputs ident p n)) = []"
  by (cases "respawnTimer p - 1 / TICK_RATE > 0")
     (simp_all add: playerUpdate_waiting playerUpdate_respawning)

lemma tick_players:
  "players (fst (tick rnd w)) =
     fst (aiLoop rnd aiSheepIds (fst (physicsLoop rnd (inputStates w) (players w) 0))
            (snd (snd (physicsLoop rnd (inputStates w) (players w) 0))))"
  by (simp add: tick_def case_prod_beta)

lemma tick_deathsOf:
  "deathsOf ident (snd (tick rnd w)) =
     deathsOf ident (fst (snd (physicsLoop rnd (inputStates w) (players w) 0)))"
  by (simp add: tick_def case_prod_beta deathsOf_def)

section \<open>Anisotropic friction\<close>

text \<open>
  Claim C7. The friction step of the integrator is the reference definition: it writes
  to the planar velocity what the reference computes from the planar velocity and the
  heading, and leaves every other field alone.
\<close>

theorem applyFriction_refines_reference:
  "applyFriction p =
     p\<lparr>velocityX := fst (frictionReference (velocityX p, velocityZ p) (rotation p)),
       velocityZ := snd (frictionReference (velocityX p, velocityZ p) (rotation p))\<rparr>"
  by (simp add: applyFriction_def frictionReference_def Let_def FRICTION_def
      SIDEWAYS_FRICTION_MULTIPLIER_def mult.commute)

section \<open>Death and respawn\<close>

text \<open>
  Claim C6. An entity that is dead and stays dead (its timer is still positive after the
  decrement) leaves a tick with its timer decremented by \<open>1 / TICK_RATE\<close> and every
  other field as it was: neither loop touches it.
\<close>

theorem dead_entity_only_counts_down:
  assumes "distinct (map fst (players w))"
    and "(ident, p) \<in> set (players w)"
    and "isDead p"
    and "respawnTimer p - 1 / TICK_RATE > 0"
  shows "map_of (players (fst (tick rnd w))) ident
           = Some (p\<lparr>respawnTimer := respawnTimer p - 1 / TICK_RATE\<rparr>)"
proof -
  obtain k where
    "map_of (fst (physicsLoop rnd (inputStates w) (players w) 0)) ident
       = Some (fst (playerUpdate rnd (inputStates w) ident p k))"
    using physicsLoop_entry [OF assms(1,2)] by blast
  then have "map_of (fst (physicsLoop rnd (inputStates w) (players w) 0)) ident
       = Some (p\<lparr>respawnTimer := respawnTimer p - 1 / TICK_RATE\<rparr>)"
    using assms(3,4) by (simp add: playerUpdate_waiting)
  then show ?thesis
    using assms(3) by (simp add: tick_players aiLoop_dead_untouched)
qed

theorem dead_entity_only_counts_down_witness:
  "map_of (players (fst (tick zeroTape
       (exampleWorld (exampleSheep\<lparr>isDead := True, respawnTimer := 3\<rparr>))))) ''ai-sheep-0''
     = Some (exampleSheep\<lparr>isDead := True, respawnTimer := 3 - 1 / 60\<rparr>)"
  using dead_entity_only_counts_down
    [of "exampleWorld (exampleSheep\<lparr>isDead := True, respawnTimer := 3\<rparr>)" "''ai-sheep-0''"
        "exampleSheep\<lparr>isDead := True, respawnTimer := 3\<rparr>" zeroTape]
  by (simp add: exampleWorld_def TICK_RATE_def)

text \<open>
  Claim C3. When the integration of a tick leaves a living entity at a planar distance of
  at least \<open>FENCE_RADIUS\<close> from the centre, the check that follows it in that tick
  marks the entity dead, sets its timer to exactly 3 and sends exactly one \<open>death\<close>
  message with its identifier and position; a tick that finds the entity dead sends no
  \<open>death\<close> message for it.
\<close>

theorem fence_death_once:
  assumes "distinct (map fst (players w))"
    and "(ident, p) \<in> set (players w)"
  shows "(\<not> isDead p \<and> FENCE_RADIUS \<le> distanceFromCenter (integrate (inputOf (inputStates w) ident) p)
            \<longrightarrow> map_of (players (fst (tick rnd w))) ident
                  = Some ((integrate (inputOf (inputStates w) ident) p)
                            \<lparr>isDead := True, respawnTimer := 3\<rparr>)
                \<and> deathsOf ident (snd (tick rnd w))
                  = [Death ident (position (integrate (inputOf (inputStates w) ident) p))])
         \<and> (isDead p \<longrightarrow> deathsOf ident (snd (tick rnd w)) = [])"
proof -
  let ?q = "integrate (inputOf (inputStates w) ident) p"
  obtain k where
    entry: "map_of (fst (physicsLoop rnd (inputStates w) (players w) 0)) ident
       = Some (fst (playerUpdate rnd (inputStates w) ident p k))"
    and evs: "deathsOf ident (fst (snd (physicsLoop rnd (inputStates w) (players w) 0)))
       = deathsOf ident (fst (snd (playerUpdate rnd (inputStates w) ident p k)))"
    using physicsLoop_entry [OF assms] by blast
  have dead: "deathsOf ident (snd (tick rnd w)) = []" if "isDead p"
  proof -
    have "deathsOf ident (fst (snd (playerUpdate rnd (inputStates w) ident p k))) = []"
      using that by (simp add: playerUpdate_dead_events deathsOf_def)
    with evs show ?thesis by (simp add: tick_deathsOf)
  qed
  have dying: "map_of (players (fst (tick rnd w))) ident
                  = Some (?q\<lparr>isDead := True, respawnTimer := 3\<rparr>)
                \<and> deathsOf ident (snd (tick rnd w)) = [Death ident (position ?q)]"
    if alive: "\<not> isDead p" and out: "FENCE_RADIUS \<le> distanceFromCenter ?q"
  proof -
    have upd: "playerUpdate rnd (inputStates w) ident p k
                 = (?q\<lparr>isDead := True, respawnTimer := 3\<rparr>, [Death ident (position ?q)], k)"
      using alive out by (simp add: playerUpdate_alive deathChecks_fence RESPAWN_TIME_def)
    have "map_of (fst (physicsLoop rnd (inputStates w) (players w) 0)) ident
            = Some (?q\<lparr>isDead := True, respawnTimer := 3\<rparr>)"
      using entry by (simp add: upd)
    then have "map_of (players (fst (tick rnd w))) ident
                 = Some (?q\<lparr>isDead := True, respawnTimer := 3\<rparr>)"
      by (simp add: tick_players aiLoop_dead_untouched)
    moreover have "deathsOf ident (snd (tick rnd w)) = [Death ident (position ?q)]"
    proof -
      have "deathsOf ident (fst (snd (playerUpdate rnd (inputStates w) ident p k)))
              = [Death ident (position ?q)]"
        by (simp add: upd deathsOf_def)
      with evs show ?thesis by (simp add: tick_deathsOf)
    qed
    ultimately show ?thesis by simp
  qed
  show ?thesis using dead dying by blast
qed

theorem fence_death_once_witness:
  "deathsOf ''ai-sheep-0'' (snd (tick zeroTape (exampleWorld strayedSheep)))
     = [Death ''ai-sheep-0'' \<lparr>xc = 201 / 2, yc = 6 / 10, zc = 0\<rparr>]
   \<and> map_of (players (fst (tick zeroTape (exampleWorld strayedSheep)))) ''ai-sheep-0''
     = Some (strayedSheep\<lparr>isDead := True, respawnTimer := 3\<rparr>)
   \<and> deathsOf ''ai-sheep-0'' (snd (tick zeroTape (exampleWorld waitingSheep))) = []"
proof -
  have "(100::real)^2 \<le> (201 / 2)^2 + 0^2" by (simp add: power2_eq_square)
  then have "(100::real) \<le> sqrt ((201 / 2)^2 + 0^2)" by (rule real_le_rsqrt)
  then have out: "FENCE_RADIUS \<le> distanceFromCenter (integrate noInput strayedSheep)"
    unfolding integrate_strayedSheep
    by (simp add: distanceFromCenter_def FENCE_RADIUS_def strayedSheep_def)
  have alive: "\<not> isDead strayedSheep" by (simp add: strayedSheep_def exampleSheep_def)
  have dead: "isDead waitingSheep" by (simp add: waitingSheep_def)
  have pos: "position strayedSheep = \<lparr>xc = 201 / 2, yc = 6 / 10, zc = 0\<rparr>"
    by (simp add: strayedSheep_def)
  show ?thesis
    using fence_death_once [of "exampleWorld strayedSheep" "''ai-sheep-0''" strayedSheep zeroTape]
      fence_death_once [of "exampleWorld waitingSheep" "''ai-sheep-0''" waitingSheep zeroTape]
      out alive dead
    by (simp add: exampleWorld_def inputOf_def integrate_strayedSheep pos)
qed

text \<open>
  Claim C4. For a timid entity whose scare timer is positive, the tilt check that follows
  the integration and the fence check changes nothing and sends nothing, whatever the
  tilt angles and whether the entity is on the ground or above it; and for any entity
  above \<open>GROUND_Y + 0.001\<close> the tilt check does nothing.
\<close>

theorem scared_timid_no_tilt_death:
  "(personality p = Some Timid \<and> scaredTimer p > 0 \<longrightarrow>
      tiltCheck ident (fst (fenceCheck ident (integrate inp p)))
        = (fst (fenceCheck ident (integrate inp p)), []))
   \<and> (yc (position q) > GROUND_Y + 1 / 1000 \<longrightarrow> tiltCheck ident q = (q, []))"
  by (simp add: tiltCheck_def isRecentlyScaredTimid_def)

theorem scared_timid_no_tilt_death_witness:
  "personality (exampleSheep\<lparr>personality := Some Timid, scaredTimer := 1, rotationX := 2\<rparr>)
     = Some Timid
   \<and> scaredTimer (exampleSheep\<lparr>personality := Some Timid, scaredTimer := 1, rotationX := 2\<rparr>) > 0
   \<and> tiltCheck ''ai-sheep-0'' (fst (fenceCheck ''ai-sheep-0'' (integrate noInput
        (exampleSheep\<lparr>personality := Some Timid, scaredTimer := 1, rotationX := 2\<rparr>))))
       = (fst (fenceCheck ''ai-sheep-0'' (integrate noInput
        (exampleSheep\<lparr>personality := Some Timid, scaredTimer := 1, rotationX := 2\<rparr>))), [])
   \<and> tiltCheck ''ai-sheep-0''
        (exampleSheep\<lparr>position := \<lparr>xc = 0, yc = 5, zc = 0\<rparr>, rotationX := 2\<rparr>)
       = (exampleSheep\<lparr>position := \<lparr>xc = 0, yc = 5, zc = 0\<rparr>, rotationX := 2\<rparr>, [])"
  using scared_timid_no_tilt_death
    [of "exampleSheep\<lparr>personality := Some Timid, scaredTimer := 1, rotationX := 2\<rparr>"
        "''ai-sheep-0''" noInput
        "exampleSheep\<lparr>position := \<lparr>xc = 0, yc = 5, zc = 0\<rparr>, rotationX := 2\<rparr>"]
  by (simp add: GROUND_Y_def)

lemma polar_norm: "(cos a * r)^2 + (sin a * r)^2 = (r::real)^2"
proof -
  have "(cos a * r)^2 + (sin a * r)^2 = ((cos a)^2 + (sin a)^2) * r^2"
    by (simp only: power_mult_distrib distrib_right)
  then show ?thesis by simp
qed

lemma getRandomSpawn_in_disk:
  assumes "0 \<le> rnd (n + 1)" and "rnd (n + 1) < 1"
  shows "sqrt ((xc (fst (getRandomSpawn rnd n)))^2 + (zc (fst (getRandomSpawn rnd n)))^2)
           < SPAWN_RADIUS"
proof -
  let ?a = "rnd n * pi * 2" and ?r = "rnd (n + 1) * SPAWN_RADIUS"
  have "sqrt ((cos ?a * ?r)^2 + (sin ?a * ?r)^2) = \<bar>?r\<bar>"
    by (simp only: polar_norm real_sqrt_abs)
  moreover have "\<bar>?r\<bar> < SPAWN_RADIUS"
    using assms by (simp add: SPAWN_RADIUS_def abs_mult)
  ultimately show ?thesis
    by (simp add: getRandomSpawn_def Let_def)
qed

text \<open>
  Claim C5. When the timer of a dead entity reaches zero or less, the loop body zeroes the
  yaw rate, the three velocities, both tilts and both tilt rates, marks the entity
  alive, draws a fresh yaw, and places the entity at its stored spawn point at ground
  height, or, when it has none, at the polar point of two fresh draws, which lies in the
  spawn disk at ground height.
\<close>

theorem respawn_resets_entity:
  assumes "isDead p" and "respawnTimer p - 1 / TICK_RATE \<le> 0"
  shows "(let r = playerUpdate rnd inputs ident p n; p' = fst r
          in angularVelocity p' = 0 \<and> velocityX p' = 0 \<and> velocityY p' = 0 \<and> velocityZ p' = 0
             \<and> rotationX p' = 0 \<and> rotationZ p' = 0
             \<and> angularVelocityX p' = 0 \<and> angularVelocityZ p' = 0
             \<and> \<not> isDead p' \<and> fst (snd r) = []
             \<and> (case spawn p of
                   Some sp \<Rightarrow>
                     position p' = sp\<lparr>yc := GROUND_Y\<rparr> \<and> rotation p' = rnd n * pi * 2
                     \<and> snd (snd r) = n + 1
                 | None \<Rightarrow>
                     position p' = \<lparr>xc = cos (rnd n * pi * 2) * (rnd (n + 1) * SPAWN_RADIUS),
                                    yc = GROUND_Y,
                                    zc = sin (rnd n * pi * 2) * (rnd (n + 1) * SPAWN_RADIUS)\<rparr>
                     \<and> rotation p' = rnd (n + 2) * pi * 2
                     \<and> snd (snd r) = n + 3
                     \<and> (0 \<le> rnd (n + 1) \<and> rnd (n + 1) < 1
                          \<longrightarrow> distanceFromCenter p' < SPAWN_RADIUS)))"
proof (cases "spawn p")
  case None
  have "0 \<le> rnd (n + 1) \<Longrightarrow> rnd (n + 1) < 1 \<Longrightarrow>
        sqrt ((cos (rnd n * pi * 2) * (rnd (n + 1) * SPAWN_RADIUS))^2
              + (sin (rnd n * pi * 2) * (rnd (n + 1) * SPAWN_RADIUS))^2) < SPAWN_RADIUS"
    using getRandomSpawn_in_disk [of rnd n] by (simp add: getRandomSpawn_def Let_def)
  then show ?thesis
    using assms None
    by (simp add: playerUpdate_respawning respawn_def getRandomSpawn_def Let_def
        RESPAWN_AT_SPAWN_def distanceFromCenter_def)
next
  case (Some sp)
  then show ?thesis
    using assms
    by (simp add: playerUpdate_respawning respawn_def Let_def RESPAWN_AT_SPAWN_def)
qed

theorem respawn_resets_entity_witness:
  "isDead (exampleSheep\<lparr>isDead := True, respawnTimer := 1 / 100\<rparr>)
   \<and> respawnTimer (exampleSheep\<lparr>isDead := True, respawnTimer := 1 / 100\<rparr>) - 1 / TICK_RATE \<le> 0
   \<and> velocityX (fst (playerUpdate halfTape Map.empty ''ai-sheep-0''
        (exampleSheep\<lparr>isDead := True, respawnTimer := 1 / 100\<rparr>) 0)) = 0
   \<and> \<not> isDead (fst (playerUpdate halfTape Map.empty ''ai-sheep-0''
        (exampleSheep\<lparr>isDead := True, respawnTimer := 1 / 100\<rparr>) 0))
   \<and> position (fst (playerUpdate halfTape Map.empty ''ai-sheep-0''
        (exampleSheep\<lparr>isDead := True, respawnTimer := 1 / 100\<rparr>) 0))
       = \<lparr>xc = - 25, yc = 6 / 10, zc = 0\<rparr>
   \<and> rotation (fst (playerUpdate halfTape Map.empty ''ai-sheep-0''
        (exampleSheep\<lparr>isDead := True, respawnTimer := 1 / 100\<rparr>) 0)) = pi"
  using respawn_resets_entity
    [of "exampleSheep\<lparr>isDead := True, respawnTimer := 1 / 100\<rparr>" halfTape Map.empty
        "''ai-sheep-0''" 0]
  by (simp add: TICK_RATE_def Let_def exampleSheep_def SPAWN_RADIUS_def GROUND_Y_def
      halfTape_def)

section \<open>Client messages\<close>

lemma setKey_flag:
  "setKey k v inp = Some inp' \<Longrightarrow>
   k \<in> set inputKeys \<and> flag k inp' = v \<and> (\<forall>k'. k' \<noteq> k \<longrightarrow> flag k' inp' = flag k' inp)"
  by (auto simp add: setKey_def flag_def inputKeys_def split: if_splits)

lemma setKey_known: "k \<in> set inputKeys \<Longrightarrow> \<exists>inp'. setKey k v inp = Some inp'"
  by (auto simp add: setKey_def inputKeys_def)

lemma setKey_unknown: "k \<notin> set inputKeys \<Longrightarrow> setKey k v inp = None"
  by (auto simp add: setKey_def inputKeys_def)

lemma onMessage_ignored: "wellTypedInput parsed = None \<Longrightarrow> onMessage ident parsed w = w"
  by (auto simp add: wellTypedInput_def onMessage_def setKey_unknown
      split: option.splits json.splits if_splits)

lemma wellTypedInput_SomeD:
  "wellTypedInput parsed = Some (k, v) \<Longrightarrow>
   \<exists>kvs. parsed = Some (JObj kvs) \<and> map_of kvs ''type'' = Some (JStr ''input'')
      \<and> map_of kvs ''key'' = Some (JStr k) \<and> map_of kvs ''pressed'' = Some (JBool v)
      \<and> k \<in> set inputKeys"
  by (auto simp add: wellTypedInput_def split: option.splits json.splits if_splits)

lemma onMessage_no_record: "inputStates w ident = None \<Longrightarrow> onMessage ident parsed w = w"
  by (auto simp add: onMessage_def split: option.splits json.splits)

lemma onMessage_accepted:
  assumes "wellTypedInput parsed = Some (k, v)" and "inputStates w ident = Some inp"
  shows "\<exists>inp'. setKey k v inp = Some inp'
           \<and> onMessage ident parsed w = w\<lparr>inputStates := (inputStates w)(ident \<mapsto> inp')\<rparr>"
proof -
  obtain kvs where p: "parsed = Some (JObj kvs)" "map_of kvs ''type'' = Some (JStr ''input'')"
      "map_of kvs ''key'' = Some (JStr k)" "map_of kvs ''pressed'' = Some (JBool v)"
      "k \<in> set inputKeys"
    using wellTypedInput_SomeD [OF assms(1)] by blast
  obtain inp' where s: "setKey k v inp = Some inp'"
    using setKey_known [OF p(5)] by blast
  show ?thesis
    using p assms(2) s by (simp add: onMessage_def)
qed

lemma onMessage_players: "players (onMessage ident parsed w) = players w"
  by (auto simp add: onMessage_def split: option.splits json.splits)

lemma onMessage_others:
  "i \<noteq> ident \<Longrightarrow> inputStates (onMessage ident parsed w) i = inputStates w i"
  by (auto simp add: onMessage_def split: option.splits json.splits)

text \<open>
  Claim C8. A message that is not valid JSON, or is not a well-typed input message for one
  of the keys w, a, s, d, changes nothing. No message changes an entity or the input
  record of another connection. A well-typed input message sets the flag of its key in
  the sender's record to the value sent and leaves the other three flags as they were.
\<close>

theorem onMessage_effect:
  "(wellTypedInput parsed = None \<longrightarrow> onMessage ident parsed w = w)
   \<and> players (onMessage ident parsed w) = players w
   \<and> (\<forall>i. i \<noteq> ident \<longrightarrow> inputStates (onMessage ident parsed w) i = inputStates w i)
   \<and> (\<forall>k v. wellTypedInput parsed = Some (k, v) \<longrightarrow>
         (case inputStates w ident of
            None \<Rightarrow> onMessage ident parsed w = w
          | Some inp \<Rightarrow>
              (\<exists>inp'. inputStates (onMessage ident parsed w) ident = Some inp'
                 \<and> flag k inp' = v
                 \<and> (\<forall>k'. k' \<noteq> k \<longrightarrow> flag k' inp' = flag k' inp))))"
proof -
  have "\<exists>inp'. inputStates (onMessage ident parsed w) ident = Some inp'
                 \<and> flag k inp' = v
                 \<and> (\<forall>k'. k' \<noteq> k \<longrightarrow> flag k' inp' = flag k' inp)"
    if wt: "wellTypedInput parsed = Some (k, v)" and known: "inputStates w ident = Some inp"
    for k v inp
  proof -
    obtain inp' where s: "setKey k v inp = Some inp'"
      and m: "onMessage ident parsed w = w\<lparr>inputStates := (inputStates w)(ident \<mapsto> inp')\<rparr>"
      using onMessage_accepted [OF wt known] by blast
    show ?thesis
      using setKey_flag [OF s] by (intro exI [of _ inp']) (simp add: m)
  qed
  then show ?thesis
    by (auto simp add: onMessage_ignored onMessage_players onMessage_others
        onMessage_no_record split: option.splits)
qed

theorem onMessage_effect_witness:
  "wellTypedInput (exampleMessage ''w'') = Some (''w'', True)
   \<and> inputStates (onMessage ''c1'' (exampleMessage ''w'')
        \<lparr>players = [], inputStates = [''c1'' \<mapsto> noInput]\<rparr>) ''c1''
       = Some (noInput\<lparr>key_w := True\<rparr>)
   \<and> wellTypedInput (exampleMessage ''x'') = None
   \<and> onMessage ''c1'' (exampleMessage ''x'') \<lparr>players = [], inputStates = [''c1'' \<mapsto> noInput]\<rparr>
       = \<lparr>players = [], inputStates = [''c1'' \<mapsto> noInput]\<rparr>
   \<and> wellTypedInput None = None
   \<and> onMessage ''c1'' None \<lparr>players = [], inputStates = [''c1'' \<mapsto> noInput]\<rparr>
       = \<lparr>players = [], inputStates = [''c1'' \<mapsto> noInput]\<rparr>"
proof -
  let ?w = "\<lparr>players = [], inputStates = [''c1'' \<mapsto> noInput]\<rparr>"
  have wt: "wellTypedInput (exampleMessage ''w'') = Some (''w'', True)"
    and bad: "wellTypedInput (exampleMessage ''x'') = None"
    and nonjson: "wellTypedInput None = None"
    by (simp_all add: wellTypedInput_def exampleMessage_def inputKeys_def)
  have "inputStates (onMessage ''c1'' (exampleMessage ''w'') ?w) ''c1''
          = Some (noInput\<lparr>key_w := True\<rparr>)"
    by (simp add: onMessage_def exampleMessage_def setKey_def)
  then show ?thesis
    using onMessage_effect [of "exampleMessage ''x''" "''c1''" ?w]
      onMessage_effect [of None "''c1''" ?w] wt bad nonjson
    by simp
qed

section \<open>Invariants of the reachable states\<close>

lemma update_set_subset: "set (AList.update k v ps) \<subseteq> insert (k, v) (set ps)"
  by (induction ps) auto

lemma delete_set_subset: "set (AList.delete k ps) \<subseteq> set ps"
  by (auto simp add: AList.delete_eq)

lemma physicsLoop_all:
  assumes "\<And>i p n. P p \<Longrightarrow> P (fst (playerUpdate rnd inputs i p n))"
    and "\<forall>e \<in> set ps. P (snd e)"
  shows "\<forall>e \<in> set (fst (physicsLoop rnd inputs ps n)). P (snd e)"
  using assms(2)
proof (induction ps arbitrary: n)
  case Nil
  then show ?case by simp
next
  case (Cons e ps)
  obtain i p where e: "e = (i, p)" by (cases e)
  from Cons.prems e have "P p" and rest: "\<forall>e \<in> set ps. P (snd e)" by auto
  from assms(1) [OF \<open>P p\<close>] Cons.IH [OF rest]
  show ?case by (simp add: e case_prod_beta Let_def)
qed

lemma aiLoop_all:
  assumes "\<And>i ps p n. P p \<Longrightarrow> P (fst (aiUpdate rnd i ps p n))"
    and "\<forall>e \<in> set ps. P (snd e)"
  shows "\<forall>e \<in> set (fst (aiLoop rnd ids ps n)). P (snd e)"
  using assms(2)
proof (induction ids arbitrary: ps n)
  case Nil
  then show ?case by simp
next
  case (Cons i ids)
  show ?case
  proof (cases "map_of ps i")
    case None
    with Cons show ?thesis by simp
  next
    case (Some sheep)
    then have "(i, sheep) \<in> set ps" by (rule map_of_SomeD)
    with Cons.prems have "P sheep" by auto
    then have "P (fst (aiUpdate rnd i ps sheep n))" by (rule assms(1))
    with Cons.prems
    have "\<forall>e \<in> set (AList.update i (fst (aiUpdate rnd i ps sheep n)) ps). P (snd e)"
      using update_set_subset [of i "fst (aiUpdate rnd i ps sheep n)" ps] by auto
    from Cons.IH [OF this] Cons.IH [OF Cons.prems] show ?thesis
      using Some by (simp add: case_prod_beta)
  qed
qed

lemma createAll_all:
  assumes "\<And>n pers. P (fst (createAISheep rnd n pers))"
  shows "\<forall>e \<in> set (createAll rnd is n). P (snd e)"
  using assms
  by (induction "is" arbitrary: n) (auto simp add: case_prod_beta Let_def)

lemma reachable_entities:
  assumes created: "\<And>rnd n pers. P (fst (createAISheep rnd n pers))"
    and connected: "\<And>rnd. P (newPlayer rnd)"
    and physics: "\<And>rnd inputs i p n. P p \<Longrightarrow> P (fst (playerUpdate rnd inputs i p n))"
    and ai: "\<And>rnd i ps p n. P p \<Longrightarrow> P (fst (aiUpdate rnd i ps p n))"
    and "reachable w"
  shows "\<forall>e \<in> set (players w). P (snd e)"
  using \<open>reachable w\<close>
proof (induction rule: reachable.induct)
  case (reach_init rnd)
  show ?case
    using createAll_all [of P rnd, OF created] by (simp add: initialWorld_def)
next
  case (reach_tick w rnd)
  have "\<forall>e \<in> set (fst (physicsLoop rnd (inputStates w) (players w) 0)). P (snd e)"
    using physics reach_tick.IH by (rule physicsLoop_all)
  then have "\<forall>e \<in> set (fst (aiLoop rnd aiSheepIds
      (fst (physicsLoop rnd (inputStates w) (players w) 0))
      (snd (snd (physicsLoop rnd (inputStates w) (players w) 0))))). P (snd e)"
    using ai by (rule aiLoop_all [rotated])
  then show ?case by (simp add: tick_players)
next
  case (reach_connection w ident rnd)
  then show ?case
    using update_set_subset [of ident "newPlayer rnd" "players w"] connected [of rnd]
    by (auto simp add: onConnection_def Let_def)
next
  case (reach_message w ident parsed)
  then show ?case by (simp add: onMessage_players)
next
  case (reach_close w ident)
  then show ?case
    using delete_set_subset [of ident "players w"] by (auto simp add: onClose_def)
qed

lemma aiSheepIds_distinct: "distinct aiSheepIds"
  by code_simp

lemma first_sheep_id: "''ai-sheep-0'' \<in> set aiSheepIds"
  by code_simp

lemma aiLoop_keys: "map fst (fst (aiLoop rnd ids ps n)) = map fst ps"
proof (induction ids arbitrary: ps n)
  case Nil
  then show ?case by simp
next
  case (Cons i ids)
  show ?case
  proof (cases "map_of ps i")
    case None
    then show ?thesis using Cons.IH by simp
  next
    case (Some sheep)
    then have "i \<in> fst ` set ps" by (auto dest: map_of_SomeD simp add: rev_image_eqI)
    then have "map fst (AList.update i v ps) = map fst ps" for v
      by (simp add: update_keys)
    then show ?thesis using Some Cons.IH by (simp add: case_prod_beta)
  qed
qed

lemma tick_keys: "map fst (players (fst (tick rnd w))) = map fst (players w)"
  by (simp add: tick_players aiLoop_keys physicsLoop_keys)

lemma createAll_keys: "map fst (createAll rnd is n) = map aiSheepId is"
  by (induction "is" arbitrary: n) (simp_all add: case_prod_beta Let_def)

lemma initialWorld_keys: "map fst (players (initialWorld rnd)) = aiSheepIds"
  by (simp add: initialWorld_def createAll_keys aiSheepIds_def)

lemma first_entity_after_tick:
  "hd (players (fst (tick rnd (initialWorld rnd')))) \<in> set (players (fst (tick rnd (initialWorld rnd'))))"
proof -
  have "map fst (players (fst (tick rnd (initialWorld rnd')))) = aiSheepIds"
    by (simp add: tick_keys initialWorld_keys)
  moreover have "aiSheepIds \<noteq> []"
    by (simp add: aiSheepIds_def AI_SHEEP_COUNT_def)
  ultimately have "players (fst (tick rnd (initialWorld rnd'))) \<noteq> []" by auto
  then show ?thesis by simp
qed

section \<open>Vertical motion\<close>

lemma early_stages_vertical [simp]:
  "position (applyTurn inp p) = position p"
  "velocityY (applyTurn inp p) = velocityY p"
  "position (applyThrust inp p) = position p"
  "velocityY (applyThrust inp p) = velocityY p"
  "position (applyFriction p) = position p"
  "velocityY (applyFriction p) = velocityY p"
  "position (clampSpeed p) = position p"
  "velocityY (clampSpeed p) = velocityY p"
  by (simp_all add: applyTurn_def applyThrust_def applyFriction_def clampSpeed_def Let_def)

lemma moveEntity_vertical:
  "yc (position (moveEntity inp p)) = yc (position p) + (velocityY p - GRAVITY / TICK_RATE)"
  "velocityY (moveEntity inp p) = velocityY p - GRAVITY / TICK_RATE"
  by (simp_all add: moveEntity_def updatePosition_def applyGravity_def)

lemma moveEntity_frame [simp]:
  "personality (moveEntity inp p) = personality p"
  "scaredTimer (moveEntity inp p) = scaredTimer p"
  by (simp_all add: moveEntity_def updatePosition_def applyGravity_def applyTurn_def
      applyThrust_def applyFriction_def clampSpeed_def Let_def)

lemma grounded_not_airborne: "grounded p \<Longrightarrow> \<not> scaredAirborne (moveEntity inp p)"
  by (simp add: grounded_def scaredAirborne_def moveEntity_vertical GRAVITY_def TICK_RATE_def)

lemma late_stages_vertical:
  "yc (position q) < GROUND_Y \<Longrightarrow> grounded (updateTilt (groundConstraint (scareOverride q)))"
  by (simp add: grounded_def updateTilt_def groundConstraint_def scareOverride_def Let_def)

lemma integrate_grounded: "grounded p \<Longrightarrow> grounded (integrate inp p)"
  unfolding integrate_def
  by (rule late_stages_vertical)
     (simp add: grounded_def moveEntity_vertical GRAVITY_def TICK_RATE_def)

lemma deathChecks_vertical [simp]:
  "position (fst (deathChecks ident q)) = position q"
  "velocityY (fst (deathChecks ident q)) = velocityY q"
  "aiAvoidTimer (fst (deathChecks ident q)) = aiAvoidTimer q"
  by (simp_all add: deathChecks_def fenceCheck_def tiltCheck_def die_def case_prod_beta)

lemma respawn_fields [simp]:
  "yc (position (fst (respawn rnd n p))) = GROUND_Y"
  "velocityY (fst (respawn rnd n p)) = 0"
  "velocityX (fst (respawn rnd n p)) = 0"
  "velocityZ (fst (respawn rnd n p)) = 0"
  "aiAvoidTimer (fst (respawn rnd n p)) = aiAvoidTimer p"
  by (simp_all add: respawn_def getRandomSpawn_def Let_def case_prod_beta
      split: option.splits)

lemma playerUpdate_grounded:
  "grounded p \<Longrightarrow> grounded (fst (playerUpdate rnd inputs i p n))"
proof (cases "isDead p")
  case False
  assume "grounded p"
  then have "grounded (integrate (inputOf inputs i) p)" by (rule integrate_grounded)
  then show ?thesis using False by (simp add: playerUpdate_alive grounded_def)
next
  case True
  assume "grounded p"
  then show ?thesis
    using True
    by (cases "respawnTimer p - 1 / TICK_RATE > 0")
       (simp_all add: playerUpdate_waiting playerUpdate_respawning grounded_def)
qed

lemma aiPersonality_frame [simp]:
  "position (fst (aiPersonality rnd i ps sheep n)) = position sheep"
  "velocityX (fst (aiPersonality rnd i ps sheep n)) = velocityX sheep"
  "velocityY (fst (aiPersonality rnd i ps sheep n)) = velocityY sheep"
  "velocityZ (fst (aiPersonality rnd i ps sheep n)) = velocityZ sheep"
  "rotation (fst (aiPersonality rnd i ps sheep n)) = rotation sheep"
  "personality (fst (aiPersonality rnd i ps sheep n)) = personality sheep"
  "aiAvoidTimer (fst (aiPersonality rnd i ps sheep n)) = aiAvoidTimer sheep"
  "isDead (fst (aiPersonality rnd i ps sheep n)) = isDead sheep"
  by (simp_all add: aiPersonality_def Let_def split: option.splits prod.splits)

lemma aiRandomWalk_frame [simp]:
  "position (fst (aiRandomWalk rnd sheep n)) = position sheep"
  "velocityX (fst (aiRandomWalk rnd sheep n)) = velocityX sheep"
  "velocityY (fst (aiRandomWalk rnd sheep n)) = velocityY sheep"
  "velocityZ (fst (aiRandomWalk rnd sheep n)) = velocityZ sheep"
  "rotation (fst (aiRandomWalk rnd sheep n)) = rotation sheep"
  "personality (fst (aiRandomWalk rnd sheep n)) = personality sheep"
  "aiAvoidTimer (fst (aiRandomWalk rnd sheep n)) = aiAvoidTimer sheep"
  "isDead (fst (aiRandomWalk rnd sheep n)) = isDead sheep"
  by (simp_all add: aiRandomWalk_def Let_def)

lemma aiMovement_frame [simp]:
  "position (aiMovement sheep) = position sheep"
  "velocityY (aiMovement sheep) = velocityY sheep"
  "personality (aiMovement sheep) = personality sheep"
  "aiAvoidTimer (aiMovement sheep) = aiAvoidTimer sheep"
  "isDead (aiMovement sheep) = isDead sheep"
  by (simp_all add: aiMovement_def Let_def)

lemma aiUpdate_frame [simp]:
  "position (fst (aiUpdate rnd i ps sheep n)) = position sheep"
  "velocityY (fst (aiUpdate rnd i ps sheep n)) = velocityY sheep"
  "personality (fst (aiUpdate rnd i ps sheep n)) = personality sheep"
  "aiAvoidTimer (fst (aiUpdate rnd i ps sheep n)) = aiAvoidTimer sheep"
  "isDead (fst (aiUpdate rnd i ps sheep n)) = isDead sheep"
  by (simp_all add: aiUpdate_def case_prod_beta)

lemma created_grounded:
  "grounded (fst (createAISheep rnd n pers))" "grounded (newPlayer rnd)"
  by (simp_all add: grounded_def createAISheep_def newPlayer_def getRandomSpawn_def Let_def)

lemma aiUpdate_grounded: "grounded p \<Longrightarrow> grounded (fst (aiUpdate rnd i ps p n))"
  by (simp add: grounded_def)

lemma reachable_spawn_ground:
  assumes "reachable w"
  shows "\<forall>e \<in> set (players w). \<forall>sp. spawn (snd e) = Some sp \<longrightarrow> yc sp = GROUND_Y"
proof -
  have keep: "spawn (fst (playerUpdate rnd inputs i p n)) = spawn p" for rnd inputs i p n
    by (cases "isDead p"; cases "respawnTimer p - 1 / TICK_RATE > 0")
       (simp_all add: playerUpdate_alive playerUpdate_waiting playerUpdate_respawning
         deathChecks_def fenceCheck_def tiltCheck_def die_def respawn_def case_prod_beta)
  have keep_ai: "spawn (fst (aiUpdate rnd i ps p n)) = spawn p" for rnd i ps p n
    by (simp add: aiUpdate_def aiMovement_def aiRandomWalk_def aiPersonality_def Let_def
        case_prod_beta split: option.splits prod.splits)
  show ?thesis
    by (rule reachable_entities
          [of "\<lambda>p. \<forall>sp. spawn p = Some sp \<longrightarrow> yc sp = GROUND_Y", OF _ _ _ _ assms])
       (simp_all add: keep keep_ai createAISheep_def newPlayer_def getRandomSpawn_def Let_def)
qed

text \<open>
  Claim C9. In every reachable state every entity stands at \<open>GROUND_Y\<close> with vertical
  velocity 0: gravity takes it below the ground and the ground constraint puts it back.
  So after the update of the position in the next tick the test of the airborne branch
  of the scare override is false, whatever the input.
\<close>

theorem entities_stay_grounded:
  assumes "reachable w"
  shows "\<forall>e \<in> set (players w).
           yc (position (snd e)) = GROUND_Y \<and> velocityY (snd e) = 0
           \<and> (\<forall>inp. \<not> scaredAirborne (moveEntity inp (snd e)))"
proof -
  have "\<forall>e \<in> set (players w). grounded (snd e)"
    using created_grounded playerUpdate_grounded aiUpdate_grounded assms
    by (rule reachable_entities)
  then show ?thesis
    using grounded_not_airborne by (auto simp add: grounded_def)
qed

theorem entities_stay_grounded_witness:
  "reachable (fst (tick zeroTape (initialWorld zeroTape)))
   \<and> yc (position (snd (hd (players (fst (tick zeroTape (initialWorld zeroTape))))))) = GROUND_Y
   \<and> velocityY (snd (hd (players (fst (tick zeroTape (initialWorld zeroTape)))))) = 0
   \<and> \<not> scaredAirborne
         (moveEntity noInput (snd (hd (players (fst (tick zeroTape (initialWorld zeroTape)))))))"
  using entities_stay_grounded [OF reach_tick [OF reach_init], of zeroTape zeroTape]
    first_entity_after_tick [of zeroTape zeroTape] reach_tick [OF reach_init, of zeroTape zeroTape]
  by blast

section \<open>The avoidance timer\<close>

lemma playerUpdate_aiAvoidTimer:
  "aiAvoidTimer (fst (playerUpdate rnd inputs i p n)) = aiAvoidTimer p"
  by (cases "isDead p"; cases "respawnTimer p - 1 / TICK_RATE > 0")
     (simp_all add: playerUpdate_alive playerUpdate_waiting playerUpdate_respawning)

text \<open>
  Claim C10. In every reachable state \<open>aiAvoidTimer\<close> is 0 for every entity, so when
  the AI loop reaches the guard of the re-roll in the next tick (after the physics loop
  and the personality branch, with the timer decremented) the guard holds exactly when
  the decremented \<open>aiTimer\<close> is at most 0, for timid sheep as for all others.
\<close>

theorem aiAvoidTimer_always_zero:
  assumes "reachable w"
  shows "\<forall>e \<in> set (players w).
           aiAvoidTimer (snd e) = 0
           \<and> (\<forall>rnd inputs k rnd' ps n.
                 rerollDue ((fst (aiPersonality rnd' (fst e) ps
                                    (fst (playerUpdate rnd inputs (fst e) (snd e) k)) n))
                            \<lparr>aiTimer :=
                               aiTimer (fst (aiPersonality rnd' (fst e) ps
                                  (fst (playerUpdate rnd inputs (fst e) (snd e) k)) n))
                               - 1 / TICK_RATE\<rparr>)
                   \<longleftrightarrow> aiTimer (fst (aiPersonality rnd' (fst e) ps
                                  (fst (playerUpdate rnd inputs (fst e) (snd e) k)) n))
                               - 1 / TICK_RATE \<le> 0)"
proof -
  have "\<forall>e \<in> set (players w). aiAvoidTimer (snd e) = 0"
    by (rule reachable_entities [of "\<lambda>p. aiAvoidTimer p = 0", OF _ _ _ _ assms])
       (simp_all add: playerUpdate_aiAvoidTimer createAISheep_def newPlayer_def Let_def
         case_prod_beta)
  then show ?thesis
    by (simp add: rerollDue_def playerUpdate_aiAvoidTimer)
qed

theorem aiAvoidTimer_always_zero_witness:
  "reachable (fst (tick zeroTape (initialWorld zeroTape)))
   \<and> aiAvoidTimer (snd (hd (players (fst (tick zeroTape (initialWorld zeroTape)))))) = 0"
  using aiAvoidTimer_always_zero [OF reach_tick [OF reach_init], of zeroTape zeroTape]
    first_entity_after_tick [of zeroTape zeroTape] reach_tick [OF reach_init, of zeroTape zeroTape]
  by blast

section \<open>Planar speed\<close>

lemma rot_norm:
  fixes s c a b :: real
  assumes "s^2 + c^2 = 1"
  shows "(s * a + c * b)^2 + (c * a - s * b)^2 = a^2 + b^2"
proof -
  have "(s * a + c * b)^2 + (c * a - s * b)^2 = (s^2 + c^2) * (a^2 + b^2)"
    by (simp add: power2_eq_square algebra_simps)
  then show ?thesis by (simp add: assms)
qed

lemma thrust_norm: "sqrt ((sin r * k)^2 + (cos r * k)^2) = \<bar>k\<bar>"
proof -
  have "(sin r * k)^2 + (cos r * k)^2 = ((sin r)^2 + (cos r)^2) * k^2"
    by (simp only: power_mult_distrib distrib_right)
  then show ?thesis by simp
qed

lemma push_speed:
  "sqrt ((vx + sin r * k)^2 + (vz + cos r * k)^2) \<le> sqrt (vx^2 + vz^2) + \<bar>k\<bar>"
  using real_sqrt_sum_squares_triangle_ineq [of vx "sin r * k" vz "cos r * k"]
  by (simp only: thrust_norm)

lemma applyTurn_velocity [simp]:
  "velocityX (applyTurn inp p) = velocityX p"
  "velocityZ (applyTurn inp p) = velocityZ p"
  by (simp_all add: applyTurn_def Let_def)

lemma applyThrust_velocity:
  "\<exists>k. \<bar>k\<bar> \<le> ACCELERATION
     \<and> velocityX (applyThrust inp p) = velocityX p + sin (rotation p) * k
     \<and> velocityZ (applyThrust inp p) = velocityZ p + cos (rotation p) * k"
proof -
  let ?k = "(if key_w inp then ACCELERATION else 0)
            - (if key_s inp then ACCELERATION * (1 / 2) else 0)"
  have "\<bar>?k\<bar> \<le> ACCELERATION" by (simp add: ACCELERATION_def)
  moreover have "velocityX (applyThrust inp p) = velocityX p + sin (rotation p) * ?k"
    and "velocityZ (applyThrust inp p) = velocityZ p + cos (rotation p) * ?k"
    by (simp_all add: applyThrust_def Let_def algebra_simps)
  ultimately show ?thesis by blast
qed

lemma applyThrust_speed: "planarSpeed (applyThrust inp p) \<le> planarSpeed p + ACCELERATION"
proof -
  obtain k where k: "\<bar>k\<bar> \<le> ACCELERATION"
    and vx: "velocityX (applyThrust inp p) = velocityX p + sin (rotation p) * k"
    and vz: "velocityZ (applyThrust inp p) = velocityZ p + cos (rotation p) * k"
    using applyThrust_velocity by blast
  have "planarSpeed (applyThrust inp p) \<le> planarSpeed p + \<bar>k\<bar>"
    unfolding planarSpeed_def vx vz by (rule push_speed)
  with k show ?thesis by simp
qed

lemma applyThrust_noInput: "applyThrust noInput p = p"
  by (simp add: applyThrust_def noInput_def)

lemma scaled_pair_le:
  fixes F G f g :: real
  assumes "G^2 \<le> F^2"
  shows "(f * F)^2 + (g * G)^2 \<le> F^2 * (f^2 + g^2)"
proof -
  have "g^2 * G^2 \<le> g^2 * F^2"
    using assms by (rule mult_left_mono) simp
  then show ?thesis
    by (simp add: power_mult_distrib distrib_left mult.commute)
qed

lemma applyFriction_speed: "planarSpeed (applyFriction p) \<le> FRICTION * planarSpeed p"
proof -
  define s where "s = sin (rotation p)"
  define c where "c = cos (rotation p)"
  define f where "f = s * velocityX p + c * velocityZ p"
  define g where "g = c * velocityX p - s * velocityZ p"
  define G where "G = 1 - (1 - FRICTION) * SIDEWAYS_FRICTION_MULTIPLIER"
  have unit: "s^2 + c^2 = 1" by (simp add: s_def c_def)
  have vx: "velocityX (applyFriction p) = s * (f * FRICTION) + c * (g * G)"
    and vz: "velocityZ (applyFriction p) = c * (f * FRICTION) - s * (g * G)"
    by (simp_all add: applyFriction_def Let_def s_def c_def f_def g_def G_def algebra_simps)
  have "(velocityX (applyFriction p))^2 + (velocityZ (applyFriction p))^2
          = (f * FRICTION)^2 + (g * G)^2"
    unfolding vx vz by (rule rot_norm [OF unit])
  also have "\<dots> \<le> FRICTION^2 * (f^2 + g^2)"
    by (rule scaled_pair_le)
       (simp add: G_def FRICTION_def SIDEWAYS_FRICTION_MULTIPLIER_def power2_eq_square)
  also have "f^2 + g^2 = (velocityX p)^2 + (velocityZ p)^2"
    unfolding f_def g_def by (rule rot_norm [OF unit])
  finally have "sqrt ((velocityX (applyFriction p))^2 + (velocityZ (applyFriction p))^2)
                  \<le> sqrt (FRICTION^2 * ((velocityX p)^2 + (velocityZ p)^2))"
    by (rule real_sqrt_le_mono)
  then show ?thesis
    by (simp add: planarSpeed_def real_sqrt_mult FRICTION_def)
qed

lemma scaled_speed:
  "planarSpeed (p\<lparr>velocityX := velocityX p * k, velocityZ := velocityZ p * k\<rparr>)
     = planarSpeed p * \<bar>k\<bar>"
proof -
  have "(velocityX p * k)^2 + (velocityZ p * k)^2 = ((velocityX p)^2 + (velocityZ p)^2) * k^2"
    by (simp only: power_mult_distrib distrib_right)
  then show ?thesis by (simp add: planarSpeed_def real_sqrt_mult)
qed

lemma clampSpeed_cases:
  "(MAX_SPEED < planarSpeed p \<and> planarSpeed (clampSpeed p) = MAX_SPEED)
   \<or> (planarSpeed p \<le> MAX_SPEED \<and> planarSpeed p < 1 / 100 \<and> planarSpeed (clampSpeed p) = 0)
   \<or> (planarSpeed p \<le> MAX_SPEED \<and> clampSpeed p = p)"
proof (cases "planarSpeed p > MAX_SPEED")
  case True
  then have pos: "planarSpeed p > 0" and big: "\<not> planarSpeed p < 1 / 100"
    by (simp_all add: MAX_SPEED_def)
  have eq: "clampSpeed p = p\<lparr>velocityX := velocityX p * (MAX_SPEED / planarSpeed p),
                              velocityZ := velocityZ p * (MAX_SPEED / planarSpeed p)\<rparr>"
    using True big by (simp add: clampSpeed_def Let_def)
  have "planarSpeed (clampSpeed p) = planarSpeed p * \<bar>MAX_SPEED / planarSpeed p\<bar>"
    unfolding eq by (rule scaled_speed)
  also have "\<dots> = MAX_SPEED"
    using pos by (simp add: MAX_SPEED_def)
  finally show ?thesis using True by simp
next
  case False
  show ?thesis
  proof (cases "planarSpeed p < 1 / 100")
    case True
    with False have "clampSpeed p = p\<lparr>velocityX := 0, velocityZ := 0\<rparr>"
      by (simp add: clampSpeed_def Let_def)
    then have "planarSpeed (clampSpeed p) = 0" by (simp add: planarSpeed_def)
    with False True show ?thesis by simp
  next
    case slow: False
    with False have "clampSpeed p = p" by (simp add: clampSpeed_def Let_def)
    with False show ?thesis by simp
  qed
qed

lemma clampSpeed_speed:
  "planarSpeed (clampSpeed p) \<le> MAX_SPEED" "planarSpeed (clampSpeed p) \<le> planarSpeed p"
proof -
  have nonneg: "0 \<le> planarSpeed p" by (simp add: planarSpeed_def)
  show "planarSpeed (clampSpeed p) \<le> MAX_SPEED"
    using clampSpeed_cases [of p] by (auto simp add: MAX_SPEED_def)
  show "planarSpeed (clampSpeed p) \<le> planarSpeed p"
    using clampSpeed_cases [of p] nonneg by auto
qed

lemma planarSpeed_cong:
  "velocityX q = velocityX p \<Longrightarrow> velocityZ q = velocityZ p \<Longrightarrow> planarSpeed q = planarSpeed p"
  by (simp add: planarSpeed_def)

lemma planarSpeed_nonneg: "0 \<le> planarSpeed p"
  by (simp add: planarSpeed_def)

lemma moveEntity_speed_eq:
  "planarSpeed (moveEntity inp p)
     = planarSpeed (clampSpeed (applyFriction (applyThrust inp (applyTurn inp p))))"
  unfolding moveEntity_def
  by (rule planarSpeed_cong) (simp_all add: updatePosition_def applyGravity_def)

lemma applyTurn_speed: "planarSpeed (applyTurn inp p) = planarSpeed p"
  by (rule planarSpeed_cong) simp_all

lemma moveEntity_speed:
  "planarSpeed (moveEntity inp p) \<le> MAX_SPEED"
  "planarSpeed (moveEntity inp p) \<le> FRICTION * (planarSpeed p + ACCELERATION)"
  "planarSpeed (moveEntity noInput p) \<le> FRICTION * planarSpeed p"
proof -
  show "planarSpeed (moveEntity inp p) \<le> MAX_SPEED"
    unfolding moveEntity_speed_eq by (rule clampSpeed_speed)
  have "planarSpeed (moveEntity inp p)
          \<le> planarSpeed (applyFriction (applyThrust inp (applyTurn inp p)))"
    unfolding moveEntity_speed_eq by (rule clampSpeed_speed)
  also have "\<dots> \<le> FRICTION * planarSpeed (applyThrust inp (applyTurn inp p))"
    by (rule applyFriction_speed)
  also have "\<dots> \<le> FRICTION * (planarSpeed (applyTurn inp p) + ACCELERATION)"
    using applyThrust_speed [of inp "applyTurn inp p"] by (simp add: FRICTION_def)
  finally show "planarSpeed (moveEntity inp p) \<le> FRICTION * (planarSpeed p + ACCELERATION)"
    by (simp add: applyTurn_speed)
  have "planarSpeed (moveEntity noInput p)
          \<le> planarSpeed (applyFriction (applyThrust noInput (applyTurn noInput p)))"
    unfolding moveEntity_speed_eq by (rule clampSpeed_speed)
  also have "\<dots> \<le> FRICTION * planarSpeed (applyTurn noInput p)"
    unfolding applyThrust_noInput by (rule applyFriction_speed)
  finally show "planarSpeed (moveEntity noInput p) \<le> FRICTION * planarSpeed p"
    by (simp add: applyTurn_speed)
qed

lemma late_stages_speed:
  "planarSpeed (updateTilt (groundConstraint (scareOverride q))) \<le> planarSpeed q"
proof -
  have "planarSpeed (updateTilt (groundConstraint (scareOverride q)))
          = planarSpeed (scareOverride q)"
    by (rule planarSpeed_cong) (simp_all add: updateTilt_def groundConstraint_def Let_def)
  also have "\<dots> \<le> planarSpeed q"
    using planarSpeed_nonneg [of q] by (simp add: scareOverride_def planarSpeed_def)
  finally show ?thesis .
qed

lemma integrate_speed:
  "planarSpeed (integrate inp p) \<le> MAX_SPEED"
  "planarSpeed (integrate inp p) \<le> FRICTION * (planarSpeed p + ACCELERATION)"
  "planarSpeed (integrate noInput p) \<le> FRICTION * planarSpeed p"
  unfolding integrate_def
  using late_stages_speed [of "moveEntity inp p"] late_stages_speed [of "moveEntity noInput p"]
    moveEntity_speed(1,2) [of inp p] moveEntity_speed(3) [of p]
  by simp_all

lemma deathChecks_speed: "planarSpeed (fst (deathChecks ident q)) = planarSpeed q"
  by (rule planarSpeed_cong)
     (simp_all add: deathChecks_def fenceCheck_def tiltCheck_def die_def case_prod_beta)

lemma deathChecks_isDead_mono: "isDead q \<Longrightarrow> isDead (fst (deathChecks ident q))"
  by (simp add: deathChecks_def fenceCheck_def tiltCheck_def die_def case_prod_beta)

lemma aiMovement_speed: "planarSpeed (aiMovement sheep) \<le> planarSpeed sheep + 11 / 200"
proof -
  define r where "r = rotation (aiMovement sheep)"
  define k where "k = ACCELERATION * moveSpeed (personality sheep)"
  have vx: "velocityX (aiMovement sheep) = velocityX sheep + sin r * k"
    and vz: "velocityZ (aiMovement sheep) = velocityZ sheep + cos r * k"
    by (simp_all add: aiMovement_def Let_def r_def k_def)
  have "\<bar>k\<bar> \<le> 11 / 200"
    by (simp add: k_def ACCELERATION_def moveSpeed_def)
  moreover have "planarSpeed (aiMovement sheep) \<le> planarSpeed sheep + \<bar>k\<bar>"
    unfolding planarSpeed_def vx vz by (rule push_speed)
  ultimately show ?thesis by simp
qed

lemma aiUpdate_speed:
  "planarSpeed (fst (aiUpdate rnd i ps sheep n)) \<le> planarSpeed sheep + 11 / 200"
proof -
  let ?s2 = "fst (aiRandomWalk rnd (fst (aiPersonality rnd i ps sheep n))
                    (snd (aiPersonality rnd i ps sheep n)))"
  have "planarSpeed ?s2 = planarSpeed sheep"
    by (rule planarSpeed_cong) simp_all
  then show ?thesis
    using aiMovement_speed [of ?s2] by (simp add: aiUpdate_def case_prod_beta)
qed

lemma playerUpdate_speed:
  assumes "planarSpeed p \<le> 11 / 10"
  shows "planarSpeed (fst (playerUpdate rnd inputs i p n)) \<le> 11 / 10"
    and "inputs i = None \<Longrightarrow> \<not> isDead (fst (playerUpdate rnd inputs i p n)) \<Longrightarrow>
         planarSpeed (fst (playerUpdate rnd inputs i p n)) \<le> 209 / 200"
proof -
  let ?p' = "fst (playerUpdate rnd inputs i p n)"
  consider (alive) "\<not> isDead p"
    | (waiting) "isDead p" "respawnTimer p - 1 / TICK_RATE > 0"
    | (respawning) "isDead p" "respawnTimer p - 1 / TICK_RATE \<le> 0"
    by fastforce
  then have "planarSpeed ?p' \<le> 11 / 10
             \<and> (inputs i = None \<and> \<not> isDead ?p' \<longrightarrow> planarSpeed ?p' \<le> 209 / 200)"
  proof cases
    case alive
    have eq: "planarSpeed ?p' = planarSpeed (integrate (inputOf inputs i) p)"
      using alive by (simp add: playerUpdate_alive deathChecks_speed)
    have "planarSpeed (integrate (inputOf inputs i) p) \<le> FRICTION * (planarSpeed p + ACCELERATION)"
      by (rule integrate_speed)
    also have "\<dots> \<le> 11 / 10"
      using assms by (simp add: FRICTION_def ACCELERATION_def)
    finally have one: "planarSpeed ?p' \<le> 11 / 10" by (simp add: eq)
    have "planarSpeed ?p' \<le> 209 / 200" if "inputs i = None"
    proof -
      have "planarSpeed (integrate noInput p) \<le> FRICTION * planarSpeed p"
        by (rule integrate_speed)
      also have "\<dots> \<le> 209 / 200"
        using assms by (simp add: FRICTION_def)
      finally show ?thesis using that by (simp add: eq inputOf_def)
    qed
    with one show ?thesis by simp
  next
    case waiting
    then have "?p' = p\<lparr>respawnTimer := respawnTimer p - 1 / TICK_RATE\<rparr>"
      by (simp add: playerUpdate_waiting)
    then show ?thesis
      using assms waiting by (simp add: planarSpeed_def)
  next
    case respawning
    then have "planarSpeed ?p' = 0"
      by (simp add: playerUpdate_respawning planarSpeed_def)
    then show ?thesis by simp
  qed
  then show "planarSpeed ?p' \<le> 11 / 10"
    and "inputs i = None \<Longrightarrow> \<not> isDead ?p' \<Longrightarrow> planarSpeed ?p' \<le> 209 / 200"
    by simp_all
qed

lemma physicsLoop_speed:
  assumes "\<forall>i \<in> set aiSheepIds. inputs i = None"
    and "\<forall>e \<in> set ps. planarSpeed (snd e) \<le> 11 / 10"
  shows "\<forall>e \<in> set (fst (physicsLoop rnd inputs ps n)).
           planarSpeed (snd e) \<le> 11 / 10
           \<and> (fst e \<in> set aiSheepIds \<and> \<not> isDead (snd e) \<longrightarrow> planarSpeed (snd e) \<le> 209 / 200)"
  using assms(2)
proof (induction ps arbitrary: n)
  case Nil
  then show ?case by simp
next
  case (Cons e ps)
  obtain i p where e: "e = (i, p)" by (cases e)
  from Cons.prems e have p: "planarSpeed p \<le> 11 / 10"
    and rest: "\<forall>e \<in> set ps. planarSpeed (snd e) \<le> 11 / 10" by auto
  show ?case
    using playerUpdate_speed [OF p, where rnd = rnd and inputs = inputs and i = i and n = n]
      Cons.IH [OF rest] assms(1)
    by (simp add: e case_prod_beta Let_def)
qed

lemma aiLoop_speed:
  assumes "distinct ids"
    and "\<forall>e \<in> set ps. planarSpeed (snd e) \<le> 11 / 10
           \<and> (fst e \<in> set ids \<and> \<not> isDead (snd e) \<longrightarrow> planarSpeed (snd e) \<le> 209 / 200)"
  shows "\<forall>e \<in> set (fst (aiLoop rnd ids ps n)). planarSpeed (snd e) \<le> 11 / 10"
  using assms
proof (induction ids arbitrary: ps n)
  case Nil
  then show ?case by simp
next
  case (Cons i ids)
  from Cons.prems(1) have fresh: "i \<notin> set ids" and dist: "distinct ids" by simp_all
  have weaker: "\<forall>e \<in> set ps. planarSpeed (snd e) \<le> 11 / 10
           \<and> (fst e \<in> set ids \<and> \<not> isDead (snd e) \<longrightarrow> planarSpeed (snd e) \<le> 209 / 200)"
    using Cons.prems(2) by auto
  show ?case
  proof (cases "map_of ps i")
    case None
    then show ?thesis using Cons.IH [OF dist weaker] by simp
  next
    case (Some sheep)
    show ?thesis
    proof (cases "isDead sheep")
      case True
      then show ?thesis using Some Cons.IH [OF dist weaker] by simp
    next
      case False
      let ?sheep1 = "fst (aiUpdate rnd i ps sheep n)"
      from Some have "(i, sheep) \<in> set ps" by (rule map_of_SomeD)
      with Cons.prems(2) False have "planarSpeed sheep \<le> 209 / 200" by fastforce
      then have "planarSpeed ?sheep1 \<le> 11 / 10"
        using aiUpdate_speed [of rnd i ps sheep n] by simp
      then have "\<forall>e \<in> set (AList.update i ?sheep1 ps). planarSpeed (snd e) \<le> 11 / 10
           \<and> (fst e \<in> set ids \<and> \<not> isDead (snd e) \<longrightarrow> planarSpeed (snd e) \<le> 209 / 200)"
        using weaker fresh update_set_subset [of i ?sheep1 ps] by auto
      from Cons.IH [OF dist this] show ?thesis
        using Some False by (simp add: case_prod_beta)
    qed
  qed
qed

lemma tick_speed:
  assumes "speedInvariant w"
  shows "speedInvariant (fst (tick rnd w))"
proof -
  from assms have noin: "\<forall>i \<in> set aiSheepIds. inputStates w i = None"
    and sp: "\<forall>e \<in> set (players w). planarSpeed (snd e) \<le> 11 / 10"
    by (simp_all add: speedInvariant_def list_all_iff)
  have "\<forall>e \<in> set (players (fst (tick rnd w))). planarSpeed (snd e) \<le> 11 / 10"
    unfolding tick_players
    using aiSheepIds_distinct physicsLoop_speed [OF noin sp]
    by (rule aiLoop_speed)
  moreover have "inputStates (fst (tick rnd w)) = inputStates w"
    by (simp add: tick_def case_prod_beta)
  ultimately show ?thesis
    using noin by (simp add: speedInvariant_def list_all_iff)
qed

lemma reachable_speed: "reachable w \<Longrightarrow> speedInvariant w"
proof (induction rule: reachable.induct)
  case (reach_init rnd)
  have "\<forall>e \<in> set (createAll rnd [0..<AI_SHEEP_COUNT] 0). planarSpeed (snd e) \<le> 11 / 10"
    by (rule createAll_all) (simp add: createAISheep_def Let_def planarSpeed_def)
  then show ?case by (simp add: speedInvariant_def initialWorld_def list_all_iff)
next
  case (reach_tick w rnd)
  then show ?case by (simp add: tick_speed)
next
  case (reach_connection w ident rnd)
  have "planarSpeed (newPlayer rnd) \<le> 11 / 10"
    by (simp add: newPlayer_def Let_def planarSpeed_def case_prod_beta)
  then show ?case
    using reach_connection update_set_subset [of ident "newPlayer rnd" "players w"]
    by (auto simp add: speedInvariant_def list_all_iff onConnection_def Let_def)
next
  case (reach_message w ident parsed)
  have "inputStates (onMessage ident parsed w) i = None" if "inputStates w i = None" for i
    using that onMessage_others [of i ident parsed w] onMessage_no_record [of w ident parsed]
    by (cases "i = ident") simp_all
  then show ?case
    using reach_message by (simp add: speedInvariant_def list_all_iff onMessage_players)
next
  case (reach_close w ident)
  then show ?case
    using delete_set_subset [of ident "players w"]
    by (auto simp add: speedInvariant_def list_all_iff onClose_def)
qed

text \<open>
  Claim C1. In every reachable state, and in the state a tick leaves (from which the state
  broadcast is built, after the AI loop has added its thrust), the planar speed of every
  entity is at most \<open>MAX_SPEED\<close>; and so is the planar speed right after the
  integration of any entity. The proof shows more: no entity is ever faster than
  \<open>1.1\<close>, because friction takes from the velocity more than thrust adds beyond that
  speed, so the thrust the AI loop adds after the clamp cannot carry a speed past
  \<open>MAX_SPEED\<close>.
\<close>

theorem planar_speed_bounded:
  assumes "reachable w"
  shows "(\<forall>e \<in> set (players (fst (tick rnd w))). planarSpeed (snd e) \<le> MAX_SPEED)
         \<and> (\<forall>e \<in> set (players w).
               planarSpeed (snd e) \<le> MAX_SPEED
               \<and> (\<forall>inp. planarSpeed (integrate inp (snd e)) \<le> MAX_SPEED))"
proof -
  have "speedInvariant w" and "speedInvariant (fst (tick rnd w))"
    using assms by (simp_all add: reachable_speed tick_speed)
  then show ?thesis
    using integrate_speed(1) by (auto simp add: speedInvariant_def list_all_iff MAX_SPEED_def)
qed

theorem planar_speed_bounded_witness:
  "reachable (initialWorld zeroTape)
   \<and> planarSpeed (snd (hd (players (fst (tick zeroTape (initialWorld zeroTape)))))) \<le> MAX_SPEED"
  using planar_speed_bounded [OF reach_init, of zeroTape zeroTape]
    first_entity_after_tick [of zeroTape zeroTape] reach_init [of zeroTape]
  by blast

section \<open>The order of the physics loop and the AI loop\<close>

lemma aiLoop_untouched:
  "ident \<notin> set ids \<Longrightarrow> map_of (fst (aiLoop rnd ids ps n)) ident = map_of ps ident"
proof (induction ids arbitrary: ps n)
  case Nil
  then show ?case by simp
next
  case (Cons i ids)
  then have ne: "i \<noteq> ident" and rest: "ident \<notin> set ids" by auto
  have "map_of (AList.update i v ps) ident = map_of ps ident" for v
    using ne by (simp add: update_conv')
  then show ?case
    using Cons.IH [OF rest] by (simp add: case_prod_beta split: option.splits)
qed

lemma aiLoop_entry:
  assumes "distinct ids" and "ident \<in> set ids"
    and "map_of ps ident = Some s" and "\<not> isDead s"
  shows "\<exists>ps' k. map_of (fst (aiLoop rnd ids ps n)) ident
                    = Some (fst (aiUpdate rnd ident ps' s k))"
  using assms
proof (induction ids arbitrary: ps n)
  case Nil
  then show ?case by simp
next
  case (Cons i ids)
  from Cons.prems(1) have fresh: "i \<notin> set ids" and dist: "distinct ids" by simp_all
  show ?case
  proof (cases "i = ident")
    case True
    have "map_of (fst (aiLoop rnd ids (AList.update ident (fst (aiUpdate rnd ident ps s n)) ps)
                         (snd (aiUpdate rnd ident ps s n)))) ident
            = Some (fst (aiUpdate rnd ident ps s n))"
      using fresh True by (simp add: aiLoop_untouched update_conv')
    then show ?thesis
      using True Cons.prems(3,4) by (auto simp add: case_prod_beta)
  next
    case False
    with Cons.prems(2) have mem: "ident \<in> set ids" by simp
    have keep: "map_of (AList.update i v ps) ident = Some s" for v
      using False Cons.prems(3) by (simp add: update_conv')
    show ?thesis
      using Cons.IH [OF dist mem Cons.prems(3,4)] Cons.IH [OF dist mem keep Cons.prems(4)]
      by (simp add: case_prod_beta split: option.splits)
  qed
qed

lemma aiUpdate_thrust:
  "velocityX (fst (aiUpdate rnd i ps s n))
     = velocityX s
       + sin (rotation (fst (aiUpdate rnd i ps s n))) * ACCELERATION * moveSpeed (personality s)"
  "velocityZ (fst (aiUpdate rnd i ps s n))
     = velocityZ s
       + cos (rotation (fst (aiUpdate rnd i ps s n))) * ACCELERATION * moveSpeed (personality s)"
  by (simp_all add: aiUpdate_def case_prod_beta aiMovement_def Let_def)

text \<open>
  Claim C2, as the code has it. The AI controller runs after the integrator: for an AI
  entity that is alive before and after the first loop, the entry the tick leaves is the
  AI update of what the integrator and the death checks made of the entity. Its position
  is the integrated one, and its planar velocity is the velocity after friction and
  clamp (of speed at most \<open>MAX_SPEED\<close>) plus the whole thrust
  \<open>ACCELERATION * moveSpeed\<close> along the new heading: friction and the clamp reach
  that thrust in the next tick only.
\<close>

theorem ai_thrust_after_physics:
  assumes "distinct (map fst (players w))"
    and "(ident, p) \<in> set (players w)"
    and "ident \<in> set aiSheepIds"
    and "\<not> isDead p"
    and "\<not> isDead (fst (deathChecks ident (integrate (inputOf (inputStates w) ident) p)))"
  shows "\<exists>q ps' k.
           map_of (players (fst (tick rnd w))) ident = Some q
           \<and> q = fst (aiUpdate rnd ident ps'
                        (fst (deathChecks ident (integrate (inputOf (inputStates w) ident) p))) k)
           \<and> position q = position (integrate (inputOf (inputStates w) ident) p)
           \<and> velocityX q = velocityX (integrate (inputOf (inputStates w) ident) p)
                 + sin (rotation q) * ACCELERATION * moveSpeed (personality p)
           \<and> velocityZ q = velocityZ (integrate (inputOf (inputStates w) ident) p)
                 + cos (rotation q) * ACCELERATION * moveSpeed (personality p)
           \<and> planarSpeed (integrate (inputOf (inputStates w) ident) p) \<le> MAX_SPEED"
proof -
  let ?p1 = "integrate (inputOf (inputStates w) ident) p"
  let ?p2 = "fst (deathChecks ident ?p1)"
  obtain k0 where "map_of (fst (physicsLoop rnd (inputStates w) (players w) 0)) ident
       = Some (fst (playerUpdate rnd (inputStates w) ident p k0))"
    using physicsLoop_entry [OF assms(1,2)] by blast
  then have "map_of (fst (physicsLoop rnd (inputStates w) (players w) 0)) ident = Some ?p2"
    using assms(4) by (simp add: playerUpdate_alive)
  from aiLoop_entry [OF aiSheepIds_distinct assms(3) this assms(5)]
  obtain ps' k where q: "map_of (players (fst (tick rnd w))) ident
                           = Some (fst (aiUpdate rnd ident ps' ?p2 k))"
    unfolding tick_players by blast
  have vel: "velocityX ?p2 = velocityX ?p1" "velocityZ ?p2 = velocityZ ?p1"
    by (simp_all add: deathChecks_def fenceCheck_def tiltCheck_def die_def case_prod_beta)
  have pers: "personality ?p2 = personality p"
    by (simp add: deathChecks_def fenceCheck_def tiltCheck_def die_def case_prod_beta)
  show ?thesis
    using q aiUpdate_thrust [of rnd ident ps' ?p2 k] integrate_speed(1) [of "inputOf (inputStates w) ident" p]
    by (intro exI [of _ "fst (aiUpdate rnd ident ps' ?p2 k)"] exI [of _ ps'] exI [of _ k])
       (simp add: vel pers)
qed

lemma aiLoop_single_skip:
  "ident \<notin> set ids \<Longrightarrow> aiLoop rnd ids [(ident, s)] n = ([(ident, s)], n)"
  by (induction ids) auto

lemma aiLoop_single:
  assumes "distinct ids" and "ident \<in> set ids" and "\<not> isDead s"
  shows "aiLoop rnd ids [(ident, s)] n
           = ([(ident, fst (aiUpdate rnd ident [(ident, s)] s n))],
              snd (aiUpdate rnd ident [(ident, s)] s n))"
  using assms(1,2)
proof (induction ids)
  case Nil
  then show ?case by simp
next
  case (Cons i ids)
  show ?case
  proof (cases "i = ident")
    case True
    with Cons.prems have "ident \<notin> set ids" by simp
    then show ?thesis
      using True assms(3) by (simp add: case_prod_beta aiLoop_single_skip)
  next
    case False
    with Cons show ?thesis by simp
  qed
qed

lemma integrate_exampleSheep: "integrate noInput exampleSheep = exampleSheep"
  by (simp add: stage_defs exampleSheep_def noInput_def Let_def GROUND_Y_def
      GRAVITY_def TICK_RATE_def MAX_SPEED_def)

lemma deathChecks_exampleSheep: "deathChecks ident exampleSheep = (exampleSheep, [])"
  by (simp add: deathChecks_def fenceCheck_def tiltCheck_def distanceFromCenter_def
      exampleSheep_def FENCE_RADIUS_def TILT_DEATH_RAD_def toRadians_def
      TILT_DEATH_DEGREES_def isRecentlyScaredTimid_def)

lemma aiUpdate_exampleSheep:
  "aiUpdate rnd ''ai-sheep-0'' [(''ai-sheep-0'', exampleSheep)] exampleSheep n = (pushedSheep, n)"
  by (simp add: aiUpdate_def aiPersonality_def aiRandomWalk_def rerollDue_def aiMovement_def
      exampleSheep_def pushedSheep_def Let_def TICK_RATE_def atan2_def turnSpeed_def
      moveSpeed_def ACCELERATION_def)

lemma planarSpeed_pushed:
  "planarSpeed (applyFriction (applyThrust noInput (applyTurn noInput pushedSheep))) = 133 / 4000"
proof -
  have "sqrt (0\<^sup>2 + (133 / 4000)\<^sup>2) = (133 / 4000 :: real)"
    by (rule real_sqrt_unique) simp_all
  then show ?thesis
    by (simp add: planarSpeed_def applyFriction_def applyThrust_def applyTurn_def noInput_def
        pushedSheep_def exampleSheep_def Let_def FRICTION_def ANGULAR_FRICTION_def)
qed

lemma integrate_pushedSheep: "integrate noInput pushedSheep = slowedSheep"
proof -
  let ?q = "applyFriction (applyThrust noInput (applyTurn noInput pushedSheep))"
  have "clampSpeed ?q = ?q"
    by (simp add: clampSpeed_def planarSpeed_pushed MAX_SPEED_def)
  then have "integrate noInput pushedSheep
               = updateTilt (groundConstraint (scareOverride (updatePosition (applyGravity ?q))))"
    by (simp add: integrate_def moveEntity_def)
  also have "\<dots> = slowedSheep"
    by (simp add: updateTilt_def groundConstraint_def scareOverride_def scaredAirborne_def
        updatePosition_def applyGravity_def applyFriction_def applyThrust_def applyTurn_def
        noInput_def pushedSheep_def slowedSheep_def exampleSheep_def Let_def FRICTION_def
        ANGULAR_FRICTION_def GROUND_Y_def GRAVITY_def TICK_RATE_def)
  finally show ?thesis .
qed

lemma deathChecks_slowedSheep: "deathChecks ident slowedSheep = (slowedSheep, [])"
proof -
  have "(0::real)\<^sup>2 + (133 / 4000)\<^sup>2 < 100\<^sup>2" by (simp add: power2_eq_square)
  then have "sqrt (0\<^sup>2 + (133 / 4000)\<^sup>2) < (100::real)"
    by (intro real_less_lsqrt) simp_all
  then have "distanceFromCenter slowedSheep < FENCE_RADIUS"
    by (simp add: distanceFromCenter_def slowedSheep_def FENCE_RADIUS_def)
  then show ?thesis
    by (simp add: deathChecks_def fenceCheck_def tiltCheck_def)
       (simp add: slowedSheep_def exampleSheep_def TILT_DEATH_RAD_def toRadians_def
         TILT_DEATH_DEGREES_def)
qed

lemma tick_exampleSheep:
  "players (fst (tick zeroTape (exampleWorld exampleSheep))) = [(''ai-sheep-0'', pushedSheep)]"
proof -
  have alive: "\<not> isDead exampleSheep" by (simp add: exampleSheep_def)
  have "physicsLoop zeroTape Map.empty [(''ai-sheep-0'', exampleSheep)] 0
          = ([(''ai-sheep-0'', exampleSheep)], [], 0)"
    using alive
    by (simp add: playerUpdate_alive inputOf_def integrate_exampleSheep deathChecks_exampleSheep)
  then show ?thesis
    using aiLoop_single [OF aiSheepIds_distinct first_sheep_id alive]
    by (simp add: tick_players exampleWorld_def aiUpdate_exampleSheep)
qed

lemma tickAIFirst_exampleSheep:
  "players (fst (tickAIFirst zeroTape (exampleWorld exampleSheep)))
     = [(''ai-sheep-0'', slowedSheep)]"
proof -
  have alive: "\<not> isDead exampleSheep" "\<not> isDead pushedSheep"
    by (simp_all add: exampleSheep_def pushedSheep_def)
  have "aiLoop zeroTape aiSheepIds [(''ai-sheep-0'', exampleSheep)] 0
          = ([(''ai-sheep-0'', pushedSheep)], 0)"
    using aiLoop_single [OF aiSheepIds_distinct first_sheep_id alive(1)]
    by (simp add: aiUpdate_exampleSheep)
  moreover have "physicsLoop zeroTape Map.empty [(''ai-sheep-0'', pushedSheep)] 0
          = ([(''ai-sheep-0'', slowedSheep)], [], 0)"
    using alive(2)
    by (simp add: playerUpdate_alive inputOf_def integrate_pushedSheep deathChecks_slowedSheep)
  ultimately show ?thesis
    by (simp add: tickAIFirst_def exampleWorld_def)
qed

theorem ai_thrust_after_physics_witness:
  "distinct (map fst (players (exampleWorld exampleSheep)))
   \<and> (''ai-sheep-0'', exampleSheep) \<in> set (players (exampleWorld exampleSheep))
   \<and> ''ai-sheep-0'' \<in> set aiSheepIds
   \<and> \<not> isDead exampleSheep
   \<and> \<not> isDead (fst (deathChecks ''ai-sheep-0'' (integrate noInput exampleSheep)))
   \<and> (\<exists>q. map_of (players (fst (tick zeroTape (exampleWorld exampleSheep)))) ''ai-sheep-0''
             = Some q
         \<and> velocityZ q = velocityZ (integrate noInput exampleSheep)
              + cos (rotation q) * ACCELERATION * moveSpeed (Some Aggressive))"
proof -
  have h: "distinct (map fst (players (exampleWorld exampleSheep)))"
    "(''ai-sheep-0'', exampleSheep) \<in> set (players (exampleWorld exampleSheep))"
    "\<not> isDead exampleSheep"
    "\<not> isDead (fst (deathChecks ''ai-sheep-0''
         (integrate (inputOf (inputStates (exampleWorld exampleSheep)) ''ai-sheep-0'')
            exampleSheep)))"
    by (simp_all add: exampleWorld_def inputOf_def integrate_exampleSheep
        deathChecks_exampleSheep, simp_all add: exampleSheep_def)
  have io: "inputOf (inputStates (exampleWorld exampleSheep)) ''ai-sheep-0'' = noInput"
    by (simp add: exampleWorld_def inputOf_def)
  have pers: "personality exampleSheep = Some Aggressive" by (simp add: exampleSheep_def)
  show ?thesis
    using ai_thrust_after_physics [OF h(1,2) first_sheep_id h(3,4), of zeroTape] h first_sheep_id
    unfolding io pers by blast
qed

text \<open>
  Claim C2, as the specification states it, fails. A resting aggressive sheep alone in
  the arena leaves a tick with the whole thrust \<open>0.05 * 0.7\<close> as its velocity and
  at its old position; had the AI stage run before friction and clamp, the velocity
  would be \<open>0.95\<close> times that and the position would have moved by it.
\<close>

theorem ai_before_friction_counterexample:
  "players (fst (tick zeroTape (exampleWorld exampleSheep))) = [(''ai-sheep-0'', pushedSheep)]
   \<and> velocityZ pushedSheep = ACCELERATION * moveSpeed (Some Aggressive)
   \<and> players (fst (tickAIFirst zeroTape (exampleWorld exampleSheep)))
       = [(''ai-sheep-0'', slowedSheep)]
   \<and> velocityZ slowedSheep = FRICTION * (ACCELERATION * moveSpeed (Some Aggressive))
   \<and> fst (tick zeroTape (exampleWorld exampleSheep))
       \<noteq> fst (tickAIFirst zeroTape (exampleWorld exampleSheep))"
proof -
  have "pushedSheep \<noteq> slowedSheep"
    by (simp add: pushedSheep_def slowedSheep_def exampleSheep_def)
  then have "players (fst (tick zeroTape (exampleWorld exampleSheep)))
               \<noteq> players (fst (tickAIFirst zeroTape (exampleWorld exampleSheep)))"
    by (simp add: tick_exampleSheep tickAIFirst_exampleSheep)
  then have "fst (tick zeroTape (exampleWorld exampleSheep))
       \<noteq> fst (tickAIFirst zeroTape (exampleWorld exampleSheep))"
    by auto
  then show ?thesis
    by (simp add: tick_exampleSheep tickAIFirst_exampleSheep)
       (simp add: pushedSheep_def slowedSheep_def ACCELERATION_def moveSpeed_def FRICTION_def)
qed

end
